theory Spec2Isabelle
  imports Complex_Main "HOL-Library.Word"
begin

unbundle bit_operations_syntax

section \<open>Orders service: data model\<close>

text \<open>
  The embedding follows the Go sources: package \<^verbatim>\<open>models\<close> (Order, CreateOrderRequest),
  package \<^verbatim>\<open>events\<close> (OrderCreatedEvent, Worker), package \<^verbatim>\<open>repository\<close>
  (OrderRepository over the two tables of the migration), package \<^verbatim>\<open>service\<close>
  (OrderService.CreateOrder) and package \<^verbatim>\<open>handler\<close> (OrderHandler.CreateOrder).

  A \<^verbatim>\<open>time.Time\<close> is the number of nanoseconds since Go's zero time instant, so that
  \<^verbatim>\<open>IsZero\<close> is the test for 0; the monotonic clock reading and the location of a Go
  time value are not part of the model. A \<^verbatim>\<open>float64\<close> price is a real number: the
  program only copies it and compares it with the bound of its binding tag. Go's
  \<^verbatim>\<open>int\<close> is an integer: no arithmetic is done on a quantity.
\<close>

type_synonym time = int

definition IsZero :: "time \<Rightarrow> bool" where
  "IsZero t = (t = 0)"

definition Second :: int where
  "Second = 1000000000"

definition Minute :: int where
  "Minute = 60 * Second"

definition Add :: "time \<Rightarrow> int \<Rightarrow> time" where
  "Add t d = t + d"

text \<open>\<^verbatim>\<open>Time.Unix\<close>: seconds since 1970, the zero instant being 62135596800 seconds earlier.\<close>

definition Unix :: "time \<Rightarrow> int" where
  "Unix t = t div Second - 62135596800"

record Order =
  ID :: string
  CustomerID :: string
  ProductID :: string
  Quantity :: int
  TotalPrice :: real
  Status :: string
  OrderTime :: time
  CreatedAt :: time
  UpdatedAt :: time

record CreateOrderRequest =
  req_CustomerID :: string
  req_ProductID :: string
  req_Quantity :: int
  req_TotalPrice :: real
  req_OrderTime :: time
  req_IdempotencyKey :: string

record OrderCreatedEvent =
  ev_OrderID :: string
  ev_CustomerID :: string
  ev_ProductID :: string
  ev_Quantity :: int
  ev_TotalPrice :: real
  ev_Timestamp :: int

text \<open>
  Errors are values. \<^verbatim>\<open>ErrOrderNotFound\<close> and \<^verbatim>\<open>ErrIdempotencyNotFound\<close> are the two
  sentinel errors of package repository; \<open>DbError\<close> is any error of the database driver
  (a failed statement, a cancelled context, a violated constraint), \<open>JsonError\<close> any
  error of \<^verbatim>\<open>encoding/json\<close>.
\<close>

datatype error = ErrOrderNotFound | ErrIdempotencyNotFound | DbError string | JsonError string

datatype level = Info | Warn | Error

type_synonym log_entry = "level \<times> string"

section \<open>Request validation: struct tags and the binding rules\<close>

text \<open>
  \<^verbatim>\<open>ShouldBindJSON\<close> decodes the body into a CreateOrderRequest (a key that is absent
  leaves the zero value of its field) and then validates each field against the rules of
  its \<^verbatim>\<open>binding\<close> struct tag. The tag of a field is read with
  \<^verbatim>\<open>reflect.StructTag.Lookup\<close>, modelled here after the Go standard library: the tag is
  a sequence of \<^verbatim>\<open>key:"value"\<close> pairs separated by spaces, and the scan stops without a
  result at the first pair that is not of this form.
\<close>

definition dquote :: char where
  "dquote = CHR 0x22"

definition backslash :: char where
  "backslash = CHR 0x5C"

definition name_char :: "char \<Rightarrow> bool" where
  "name_char c = ((of_char c :: nat) > 32 \<and> c \<noteq> CHR '':'' \<and> c \<noteq> dquote \<and> (of_char c :: nat) \<noteq> 127)"

text \<open>
  \<open>scan_quoted\<close> reads the text after an opening quote up to the closing quote, a
  backslash protecting the next character: the contents and the rest of the tag, or None
  when the closing quote is missing.
\<close>

fun scan_quoted :: "string \<Rightarrow> (string \<times> string) option" where
  "scan_quoted [] = None"
| "scan_quoted (c # cs) =
     (if c = dquote then Some ([], cs)
      else if c = backslash then
        (case cs of
           [] \<Rightarrow> None
         | d # ds \<Rightarrow> (case scan_quoted ds of None \<Rightarrow> None | Some (v, r) \<Rightarrow> Some (c # d # v, r)))
      else (case scan_quoted cs of None \<Rightarrow> None | Some (v, r) \<Rightarrow> Some (c # v, r)))"

text \<open>
  \<^verbatim>\<open>strconv.Unquote\<close> of a quoted value: the contents themselves when they hold no
  backslash, as in every tag of this program. Escape sequences are outside the model and
  give None.
\<close>

definition Unquote :: "string \<Rightarrow> string option" where
  "Unquote v = (if backslash \<in> set v then None else Some v)"

lemma scan_quoted_shorter: "scan_quoted cs = Some (v, r) \<Longrightarrow> length r < length cs"
proof (induction cs arbitrary: v r rule: scan_quoted.induct)
  case 1
  then show ?case by simp
next
  case (2 c cs)
  show ?case
  proof (cases "c = dquote")
    case True
    with "2.prems" show ?thesis by simp
  next
    case nq: False
    show ?thesis
    proof (cases "c = backslash")
      case True
      with nq "2.prems" obtain d ds v' where cs: "cs = d # ds" and s: "scan_quoted ds = Some (v', r)"
        by (auto split: list.splits option.splits)
      from "2.IH"(1) [OF nq True cs s] cs show ?thesis by simp
    next
      case False
      with nq "2.prems" obtain v' where s: "scan_quoted cs = Some (v', r)"
        by (auto split: option.splits)
      from "2.IH"(2) [OF nq False s] show ?thesis by simp
    qed
  qed
qed

function Lookup :: "string \<Rightarrow> string \<Rightarrow> string option" where
  "Lookup tag key =
     (let tag1 = dropWhile (\<lambda>c. c = CHR '' '') tag in
      if tag1 = [] then None
      else
        let name = takeWhile name_char tag1;
            rest = dropWhile name_char tag1
        in if name = [] \<or> length rest < 2 \<or> hd rest \<noteq> CHR '':'' \<or> hd (tl rest) \<noteq> dquote then None
           else
             (case scan_quoted (tl (tl rest)) of
                None \<Rightarrow> None
              | Some (v, tag2) \<Rightarrow> if key = name then Unquote v else Lookup tag2 key))"
  by pat_completeness auto
termination
proof (relation "measure (\<lambda>(tag, key). length tag)")
  show "wf (measure (\<lambda>(tag, key). length tag))" by simp
next
  fix tag key :: string and tag1 name rest x2 v tag2
  assume t1: "tag1 = dropWhile (\<lambda>c. c = CHR '' '') tag"
    and r: "rest = dropWhile name_char tag1"
    and s: "scan_quoted (tl (tl rest)) = Some x2"
    and x: "(v, tag2) = x2"
  from s x have "length tag2 < length (tl (tl rest))"
    using scan_quoted_shorter [of "tl (tl rest)" v tag2] by simp
  also have "\<dots> \<le> length rest" by simp
  also from r have "\<dots> \<le> length tag1" by (simp add: length_dropWhile_le)
  also from t1 have "\<dots> \<le> length tag" by (simp add: length_dropWhile_le)
  finally show "((tag2, key), (tag, key)) \<in> measure (\<lambda>(tag, key). length tag)" by simp
qed

declare Lookup.simps [simp del]

text \<open>
  The rules of a binding tag are separated by commas, a rule and its parameter by an equals
  sign. The program uses \<^verbatim>\<open>required\<close> and \<^verbatim>\<open>min\<close>; the validator panics on a rule it
  does not know.
\<close>

fun split_on :: "char \<Rightarrow> string \<Rightarrow> string list" where
  "split_on sep [] = [[]]"
| "split_on sep (c # cs) =
     (if c = sep then [] # split_on sep cs
      else (case split_on sep cs of [] \<Rightarrow> [[c]] | w # ws \<Rightarrow> (c # w) # ws))"

datatype rule = Required | Min string | Undefined string

definition parse_rule :: "string \<Rightarrow> rule" where
  "parse_rule t =
     (let name = takeWhile (\<lambda>c. c \<noteq> CHR ''='') t;
          param = drop (Suc (length name)) t
      in if name = ''required'' then Required
         else if name = ''min'' then Min param
         else Undefined name)"

fun digit_val :: "char \<Rightarrow> nat option" where
  "digit_val c =
     (let n = (of_char c :: nat) in if 48 \<le> n \<and> n \<le> 57 then Some (n - 48) else None)"

fun parse_digits :: "nat \<Rightarrow> string \<Rightarrow> nat option" where
  "parse_digits acc [] = Some acc"
| "parse_digits acc (c # cs) =
     (case digit_val c of None \<Rightarrow> None | Some d \<Rightarrow> parse_digits (10 * acc + d) cs)"

text \<open>The parameter of \<^verbatim>\<open>min\<close>: an unsigned decimal number, as in this program.\<close>

definition parse_param :: "string \<Rightarrow> nat option" where
  "parse_param p = (if p = [] then None else parse_digits 0 p)"

datatype fvalue = VString string | VInt int | VFloat real | VTime time

text \<open>\<^verbatim>\<open>required\<close>: the field does not hold the zero value of its type.\<close>

fun hasValue :: "fvalue \<Rightarrow> bool" where
  "hasValue (VString s) = (s \<noteq> [])"
| "hasValue (VInt n) = (n \<noteq> 0)"
| "hasValue (VFloat r) = (r \<noteq> 0)"
| "hasValue (VTime t) = (\<not> IsZero t)"

datatype verdict = Valid | Invalid | Panics

text \<open>
  \<^verbatim>\<open>min\<close>: a number is at least the parameter. The program puts \<^verbatim>\<open>min\<close> on an
  \<^verbatim>\<open>int\<close> and on a \<^verbatim>\<open>float64\<close> only; the other kinds are outside the model.
\<close>

fun isGte :: "fvalue \<Rightarrow> nat \<Rightarrow> verdict" where
  "isGte (VInt n) p = (if int p \<le> n then Valid else Invalid)"
| "isGte (VFloat r) p = (if real p \<le> r then Valid else Invalid)"
| "isGte (VString s) p = Panics"
| "isGte (VTime t) p = Panics"

fun check_rule :: "rule \<Rightarrow> fvalue \<Rightarrow> verdict" where
  "check_rule Required v = (if hasValue v then Valid else Invalid)"
| "check_rule (Min p) v = (case parse_param p of None \<Rightarrow> Panics | Some n \<Rightarrow> isGte v n)"
| "check_rule (Undefined n) v = Panics"

text \<open>The rules of a field run in order and stop at the first one that does not pass.\<close>

fun check_rules :: "rule list \<Rightarrow> fvalue \<Rightarrow> verdict" where
  "check_rules [] v = Valid"
| "check_rules (r # rs) v = (case check_rule r v of Valid \<Rightarrow> check_rules rs v | bad \<Rightarrow> bad)"

definition validate_field :: "string \<Rightarrow> fvalue \<Rightarrow> verdict" where
  "validate_field tag v =
     (case Lookup tag ''binding'' of
        None \<Rightarrow> Valid
      | Some b \<Rightarrow> if b = [] then Valid else check_rules (map parse_rule (split_on CHR '','' b)) v)"

text \<open>The struct tags of CreateOrderRequest, as they are written in package models.\<close>

definition tag_CustomerID :: string where
  \<open>tag_CustomerID = ''json:"customer_id" binding:"required"''\<close>

definition tag_ProductID :: string where
  \<open>tag_ProductID = ''json:"product_id" binding:"required"''\<close>

definition tag_Quantity :: string where
  \<open>tag_Quantity = ''json:"quantity" binding:"required,min=1"''\<close>

definition tag_TotalPrice :: string where
  \<open>tag_TotalPrice = ''json:"total_price" binding:"required,min=0"''\<close>

definition tag_OrderTime :: string where
  \<open>tag_OrderTime = ''json:"order_time,omitempty" binding:"required''\<close>

definition tag_IdempotencyKey :: string where
  \<open>tag_IdempotencyKey = ''json:"idempotency_key" binding:"required"''\<close>

definition request_fields :: "CreateOrderRequest \<Rightarrow> (string \<times> fvalue) list" where
  "request_fields req =
     [(tag_CustomerID, VString (req_CustomerID req)),
      (tag_ProductID, VString (req_ProductID req)),
      (tag_Quantity, VInt (req_Quantity req)),
      (tag_TotalPrice, VFloat (req_TotalPrice req)),
      (tag_OrderTime, VTime (req_OrderTime req)),
      (tag_IdempotencyKey, VString (req_IdempotencyKey req))]"

text \<open>
  A struct is valid when every field is; a panic of the validator wins over a field error.
\<close>

definition validate_request :: "CreateOrderRequest \<Rightarrow> verdict" where
  "validate_request req =
     (let vs = map (\<lambda>(tag, v). validate_field tag v) (request_fields req)
      in if Panics \<in> set vs then Panics else if Invalid \<in> set vs then Invalid else Valid)"

section \<open>Identifiers\<close>

text \<open>
  \<^verbatim>\<open>uuid.New().String()\<close>: sixteen random bytes, the version and variant bits set, written
  as 32 hexadecimal digits in five groups. The random bytes are an input of the model; a
  failing random source, on which \<^verbatim>\<open>uuid.New\<close> panics, is not.
\<close>

definition uuid_bytes :: "128 word \<Rightarrow> 8 word list" where
  "uuid_bytes w = map (\<lambda>i. ucast (drop_bit (8 * (15 - i)) w)) [0..<16]"

definition uuid_New :: "128 word \<Rightarrow> 8 word list" where
  "uuid_New r =
     (let u = uuid_bytes r;
          u6 = u[6 := ((u ! 6) AND 0x0f) OR 0x40]
      in u6[8 := ((u6 ! 8) AND 0x3f) OR 0x80])"

definition hexdigit :: "nat \<Rightarrow> char" where
  "hexdigit n = ''0123456789abcdef'' ! n"

definition hex_byte :: "8 word \<Rightarrow> string" where
  "hex_byte b = [hexdigit (unat (drop_bit 4 b)), hexdigit (unat (b AND 0x0f))]"

definition hex_Encode :: "8 word list \<Rightarrow> string" where
  "hex_Encode bs = concat (map hex_byte bs)"

definition uuid_String :: "8 word list \<Rightarrow> string" where
  "uuid_String u =
     hex_Encode (take 4 u) @ ''-'' @ hex_Encode (take 2 (drop 4 u)) @ ''-'' @
     hex_Encode (take 2 (drop 6 u)) @ ''-'' @ hex_Encode (take 2 (drop 8 u)) @ ''-'' @
     hex_Encode (drop 10 u)"

section \<open>The select statement\<close>

text \<open>
  A \<^verbatim>\<open>select\<close> over communication cases: when at least one case is ready the runtime
  picks one of the ready cases (pseudo-randomly; the pick is an input of the model), when
  none is ready it takes the \<^verbatim>\<open>default\<close> case if there is one, and parks the goroutine
  otherwise.
\<close>

datatype selected = Case nat | Default | Parked

definition go_select :: "bool list \<Rightarrow> bool \<Rightarrow> nat \<Rightarrow> selected" where
  "go_select ready has_default pick =
     (let rs = filter (\<lambda>i. ready ! i) [0..<length ready]
      in if rs \<noteq> [] then Case (rs ! (pick mod length rs))
         else if has_default then Default
         else Parked)"

section \<open>The database, the event channel and the log\<close>

text \<open>
  The two tables of the migration are lists of rows. The primary key of \<^verbatim>\<open>orders\<close> is
  \<^verbatim>\<open>id\<close>, the primary key of \<^verbatim>\<open>idempotency_keys\<close> is the triple
  \<^verbatim>\<open>(endpoint_name, endpoint_scheme, key)\<close>. The response column holds the bytes that
  \<^verbatim>\<open>json.Marshal\<close> produced; their type is a parameter, the two functions of
  \<^verbatim>\<open>encoding/json\<close> that the program calls being a parameter as well.

  A timestamp column holds the time value it was given, without the rounding of the
  database to microseconds.

  The event channel is its buffer, its capacity and whether the worker is parked on it:
  a send is ready when the buffer has room or the receiver waits.
\<close>

record 'b idempotency_row =
  ik_endpoint_name :: string
  ik_endpoint_scheme :: string
  ik_key :: string
  ik_response :: 'b
  ik_valid_to :: time
  ik_created_at :: time

record 'b state =
  orders :: "Order list"
  idempotency_keys :: "'b idempotency_row list"
  eventChan :: "OrderCreatedEvent list"
  chan_cap :: nat
  receiver_parked :: bool
  logs :: "log_entry list"

record 'b codec =
  Marshal :: "Order \<Rightarrow> error + 'b"
  Unmarshal :: "'b \<Rightarrow> error + Order"

text \<open>
  What one request takes from its environment: the readings of the clocks in the order
  in which the code takes them (\<^verbatim>\<open>NOW()\<close> of the database for the lookup, then
  \<^verbatim>\<open>time.Now()\<close> in CreateOrder of the repository, twice in StoreIdempotencyResponse
  and once for the event; all on one timeline), the random bytes of the identifier, the
  failure of each of the three statements (None when the database runs it; a failure
  covers a cancelled context and every constraint of the schema but the primary key of
  \<^verbatim>\<open>orders\<close>, which the model checks itself), whether the context of the request is
  cancelled when the event is sent, and the pick of the select.
\<close>

record env =
  db_now :: time
  select_err :: "string option"
  now_order :: time
  uuid_random :: "128 word"
  insert_err :: "string option"
  now_valid :: time
  now_stored :: time
  upsert_err :: "string option"
  now_event :: time
  ctx_done :: bool
  select_pick :: nat

definition log :: "level \<Rightarrow> string \<Rightarrow> 'b state \<Rightarrow> 'b state" where
  "log l m s = s\<lparr>logs := logs s @ [(l, m)]\<rparr>"

section \<open>OrderRepository\<close>

definition same_key :: "string \<Rightarrow> string \<Rightarrow> string \<Rightarrow> 'b idempotency_row \<Rightarrow> bool" where
  "same_key name scheme k r =
     (ik_endpoint_name r = name \<and> ik_endpoint_scheme r = scheme \<and> ik_key r = k)"

text \<open>
  GetIdempotencyResponse: the first row of
  \<^verbatim>\<open>WHERE endpoint_name = $1 AND endpoint_scheme = $2 AND key = $3 AND valid_to > NOW()\<close>;
  no row is \<^verbatim>\<open>ErrIdempotencyNotFound\<close>, any other error is logged and returned.
\<close>

definition GetIdempotencyResponse ::
  "env \<Rightarrow> string \<Rightarrow> string \<Rightarrow> string \<Rightarrow> 'b state \<Rightarrow> (error + 'b) \<times> 'b state" where
  "GetIdempotencyResponse e name scheme k s =
     (case select_err e of
        Some m \<Rightarrow> (Inl (DbError m), log Error ''Failed to get idempotency response'' s)
      | None \<Rightarrow>
          (case find (\<lambda>r. same_key name scheme k r \<and> ik_valid_to r > db_now e) (idempotency_keys s) of
             None \<Rightarrow> (Inl ErrIdempotencyNotFound, s)
           | Some r \<Rightarrow> (Inr (ik_response r), s)))"

text \<open>
  The upsert of StoreIdempotencyResponse:
  \<^verbatim>\<open>INSERT ... ON CONFLICT (endpoint_name, endpoint_scheme, key) DO UPDATE
  SET response = EXCLUDED.response, valid_to = EXCLUDED.valid_to\<close>.
\<close>

definition upsert :: "'b idempotency_row \<Rightarrow> 'b idempotency_row list \<Rightarrow> 'b idempotency_row list" where
  "upsert new rows =
     (if \<exists>r \<in> set rows. same_key (ik_endpoint_name new) (ik_endpoint_scheme new) (ik_key new) r
      then map (\<lambda>r. if same_key (ik_endpoint_name new) (ik_endpoint_scheme new) (ik_key new) r
                     then r\<lparr>ik_response := ik_response new, ik_valid_to := ik_valid_to new\<rparr>
                     else r) rows
      else rows @ [new])"

definition StoreIdempotencyResponse ::
  "'b codec \<Rightarrow> env \<Rightarrow> string \<Rightarrow> string \<Rightarrow> string \<Rightarrow> Order \<Rightarrow> int \<Rightarrow> 'b state
     \<Rightarrow> error option \<times> 'b state" where
  "StoreIdempotencyResponse c e name scheme k resp validityDuration s =
     (case Marshal c resp of
        Inl err \<Rightarrow> (Some err, log Error ''Failed to marshal response for idempotency'' s)
      | Inr responseJSON \<Rightarrow>
          (let validTo = Add (now_valid e) validityDuration in
           case upsert_err e of
             Some m \<Rightarrow> (Some (DbError m), log Error ''Failed to store idempotency response'' s)
           | None \<Rightarrow>
               (None, s\<lparr>idempotency_keys :=
                        upsert \<lparr>ik_endpoint_name = name, ik_endpoint_scheme = scheme, ik_key = k,
                                ik_response = responseJSON, ik_valid_to = validTo,
                                ik_created_at = now_stored e\<rparr> (idempotency_keys s)\<rparr>)))"

text \<open>
  CreateOrder of the repository writes through the pointer it is given before it runs the
  INSERT: the populated order is part of the result also when the statement fails.
\<close>

definition repo_CreateOrder :: "env \<Rightarrow> Order \<Rightarrow> 'b state \<Rightarrow> error option \<times> Order \<times> 'b state" where
  "repo_CreateOrder e order s =
     (let now = now_order e;
          o1 = order\<lparr>ID := uuid_String (uuid_New (uuid_random e))\<rparr>;
          o2 = (if IsZero (OrderTime o1) then o1\<lparr>OrderTime := now\<rparr> else o1);
          o3 = o2\<lparr>CreatedAt := now, UpdatedAt := now, Status := ''created''\<rparr>
      in case insert_err e of
           Some m \<Rightarrow> (Some (DbError m), o3, log Error ''Failed to create order'' s)
         | None \<Rightarrow>
             if ID o3 \<in> set (map ID (orders s))
             then (Some (DbError ''duplicate key value violates unique constraint orders_pkey''), o3,
                   log Error ''Failed to create order'' s)
             else (None, o3, log Info ''Order created successfully'' (s\<lparr>orders := orders s @ [o3]\<rparr>)))"

section \<open>OrderService.CreateOrder\<close>

definition send_ready :: "'b state \<Rightarrow> bool" where
  "send_ready s = (receiver_parked s \<or> length (eventChan s) < chan_cap s)"

definition send :: "OrderCreatedEvent \<Rightarrow> 'b state \<Rightarrow> 'b state" where
  "send ev s = s\<lparr>eventChan := eventChan s @ [ev], receiver_parked := False\<rparr>"

datatype emitted = Delivered | DroppedCancelled | DroppedFull | Blocked

text \<open>
  The select of CreateOrder: send the event, or see the cancelled context, or take the
  default case.
\<close>

definition emit :: "env \<Rightarrow> OrderCreatedEvent \<Rightarrow> string \<Rightarrow> 'b state \<Rightarrow> emitted \<times> 'b state" where
  "emit e ev order_id s =
     (case go_select [send_ready s, ctx_done e] True (select_pick e) of
        Case i \<Rightarrow>
          if i = 0 then (Delivered, log Info ''OrderCreated event emitted'' (send ev s))
          else (DroppedCancelled, log Warn ''Context cancelled before event could be emitted'' s)
      | Default \<Rightarrow> (DroppedFull, log Warn ''Event channel full, event not emitted'' s)
      | Parked \<Rightarrow> (Blocked, s))"

text \<open>
  The idempotency check at the head of CreateOrder: the saved order when a valid record
  exists and deserializes, None when the request goes on to create an order. The response
  column is \<^verbatim>\<open>NOT NULL\<close>, so the bytes of a row that was found are never nil.
\<close>

definition check_idempotency ::
  "'b codec \<Rightarrow> env \<Rightarrow> string \<Rightarrow> string \<Rightarrow> CreateOrderRequest \<Rightarrow> 'b state \<Rightarrow> Order option \<times> 'b state" where
  "check_idempotency c e endpointName endpointScheme req s =
     (case GetIdempotencyResponse e endpointName endpointScheme (req_IdempotencyKey req) s of
        (Inr savedResponse, s1) \<Rightarrow>
          (let s2 = log Info ''Idempotent request detected, returning saved response'' s1 in
           case Unmarshal c savedResponse of
             Inl err \<Rightarrow>
               (None, log Warn ''Failed to unmarshal saved idempotency response, proceeding with new request'' s2)
           | Inr order \<Rightarrow> (Some order, s2))
      | (Inl err, s1) \<Rightarrow>
          if err \<noteq> ErrIdempotencyNotFound
          then (None, log Warn ''Error checking idempotency, proceeding with new request'' s1)
          else (None, s1))"

definition draft_order :: "CreateOrderRequest \<Rightarrow> Order" where
  "draft_order req =
     \<lparr>ID = [], CustomerID = req_CustomerID req, ProductID = req_ProductID req,
      Quantity = req_Quantity req, TotalPrice = req_TotalPrice req, Status = [],
      OrderTime = req_OrderTime req, CreatedAt = 0, UpdatedAt = 0\<rparr>"

definition event_of :: "env \<Rightarrow> Order \<Rightarrow> OrderCreatedEvent" where
  "event_of e order =
     \<lparr>ev_OrderID = ID order, ev_CustomerID = CustomerID order, ev_ProductID = ProductID order,
      ev_Quantity = Quantity order, ev_TotalPrice = TotalPrice order,
      ev_Timestamp = Unix (now_event e)\<rparr>"

text \<open>
  The result is None when the call does not return (the goroutine is parked), and the
  error or the order otherwise.
\<close>

definition CreateOrder ::
  "'b codec \<Rightarrow> env \<Rightarrow> string \<Rightarrow> string \<Rightarrow> CreateOrderRequest \<Rightarrow> 'b state
     \<Rightarrow> (error + Order) option \<times> 'b state" where
  "CreateOrder c e endpointName endpointScheme req s =
     (case check_idempotency c e endpointName endpointScheme req s of
        (Some saved, s2) \<Rightarrow> (Some (Inr saved), s2)
      | (None, s2) \<Rightarrow>
          (case repo_CreateOrder e (draft_order req) s2 of
             (Some err, order, s3) \<Rightarrow> (Some (Inl err), s3)
           | (None, order, s3) \<Rightarrow>
               (let validityDuration = 10 * Minute;
                    (serr, s4) = StoreIdempotencyResponse c e endpointName endpointScheme
                                   (req_IdempotencyKey req) order validityDuration s3;
                    s5 = (case serr of
                            Some err \<Rightarrow> log Warn ''Failed to store idempotency response'' s4
                          | None \<Rightarrow> s4)
                in case emit e (event_of e order) (ID order) s5 of
                     (Blocked, s6) \<Rightarrow> (None, s6)
                   | (outcome, s6) \<Rightarrow> (Some (Inr order), s6))))"

section \<open>OrderHandler.CreateOrder\<close>

text \<open>
  The body of a POST either fails to decode (it is not JSON, or a value has the wrong
  type for its field) or decodes into a CreateOrderRequest. A panic of the validator is
  answered by the recovery middleware with status 500.
\<close>

datatype body = Malformed | Decoded CreateOrderRequest

datatype reply = OrderJSON Order | ErrorJSON string | NoBody

definition handler_CreateOrder ::
  "'b codec \<Rightarrow> env \<Rightarrow> string \<Rightarrow> string \<Rightarrow> body \<Rightarrow> 'b state \<Rightarrow> (nat \<times> reply) option \<times> 'b state" where
  "handler_CreateOrder c e path method b s =
     (case b of
        Malformed \<Rightarrow> (Some (400, ErrorJSON ''Invalid request body''), log Warn ''Invalid request body'' s)
      | Decoded req \<Rightarrow>
          (case validate_request req of
             Invalid \<Rightarrow> (Some (400, ErrorJSON ''Invalid request body''), log Warn ''Invalid request body'' s)
           | Panics \<Rightarrow> (Some (500, NoBody), log Error ''Panic recovered'' s)
           | Valid \<Rightarrow>
               (case CreateOrder c e path method req s of
                  (None, s') \<Rightarrow> (None, s')
                | (Some (Inl err), s') \<Rightarrow>
                    (Some (500, ErrorJSON ''Failed to create order''), log Error ''Failed to create order'' s')
                | (Some (Inr order), s') \<Rightarrow>
                    (Some (201, OrderJSON order), log Info ''Order created successfully'' s'))))"

section \<open>The event worker\<close>

text \<open>
  The worker owns the receiving end of the event channel, the context it was started
  with and its stop channel. \<^verbatim>\<open>Stop\<close> closes the stop channel; closing a closed channel
  panics.
\<close>

record worker =
  w_eventChan :: "OrderCreatedEvent list"
  w_ctx_done :: bool
  w_stopChan_closed :: bool
  w_processed :: "OrderCreatedEvent list"
  w_logs :: "log_entry list"

definition wlog :: "level \<Rightarrow> string \<Rightarrow> worker \<Rightarrow> worker" where
  "wlog l m w = w\<lparr>w_logs := w_logs w @ [(l, m)]\<rparr>"

definition Stop :: "worker \<Rightarrow> worker option" where
  "Stop w = (if w_stopChan_closed w then None else Some (w\<lparr>w_stopChan_closed := True\<rparr>))"

text \<open>processEvent: two log lines around the work on the event (a fixed delay in the source).\<close>

definition processEvent :: "OrderCreatedEvent \<Rightarrow> worker \<Rightarrow> worker" where
  "processEvent ev w =
     wlog Info ''OrderCreated event processed successfully''
       ((wlog Info ''Processing OrderCreated event'' w)\<lparr>w_processed := w_processed w @ [ev]\<rparr>)"

datatype iteration = Continue worker | Return worker | Waiting worker

text \<open>
  One pass through the body of the loop of \<^verbatim>\<open>Start\<close>: a select without default over the
  event channel, \<^verbatim>\<open>ctx.Done()\<close> and the stop channel. \<open>Waiting\<close> is the select parked
  because none of the three is ready.
\<close>

definition worker_iteration :: "nat \<Rightarrow> worker \<Rightarrow> iteration" where
  "worker_iteration pick w =
     (case go_select [w_eventChan w \<noteq> [], w_ctx_done w, w_stopChan_closed w] False pick of
        Case i \<Rightarrow>
          if i = 0 then
            (case w_eventChan w of
               [] \<Rightarrow> Waiting w
             | ev # rest \<Rightarrow> Continue (processEvent ev (w\<lparr>w_eventChan := rest\<rparr>)))
          else if i = 1 then Return (wlog Info ''Event worker stopping due to context cancellation'' w)
          else Return (wlog Info ''Event worker stopping'' w)
      | Default \<Rightarrow> Waiting w
      | Parked \<Rightarrow> Waiting w)"

text \<open>
  The loop runs against a schedule: before each pass the producers may have sent events,
  the owner may have cancelled the context or called \<^verbatim>\<open>Stop\<close> (a second call panics
  in the caller and leaves the channel closed), and the runtime brings its pick for the
  select. The run is \<open>Returned\<close> when \<^verbatim>\<open>Start\<close> has returned and \<open>Running\<close>
  when the schedule ends with the loop still alive.
\<close>

record tick =
  t_arrive :: "OrderCreatedEvent list"
  t_cancel :: bool
  t_stop :: bool
  t_pick :: nat

definition before :: "tick \<Rightarrow> worker \<Rightarrow> worker" where
  "before t w =
     (let w1 = w\<lparr>w_eventChan := w_eventChan w @ t_arrive t,
                 w_ctx_done := (w_ctx_done w \<or> t_cancel t)\<rparr>
      in if t_stop t then (case Stop w1 of Some w2 \<Rightarrow> w2 | None \<Rightarrow> w1) else w1)"

datatype run = Returned worker | Running worker

fun Start_loop :: "tick list \<Rightarrow> worker \<Rightarrow> run" where
  "Start_loop [] w = Running w"
| "Start_loop (t # ts) w =
     (case worker_iteration (t_pick t) (before t w) of
        Continue w' \<Rightarrow> Start_loop ts w'
      | Return w' \<Rightarrow> Returned w'
      | Waiting w' \<Rightarrow> Start_loop ts w')"

definition Start :: "tick list \<Rightarrow> worker \<Rightarrow> run" where
  "Start ts w = Start_loop ts (wlog Info ''Event worker started'' w)"

section \<open>Activity between two requests\<close>





section \<open>A codec for concrete runs\<close>

text \<open>
  The theorems below hold for every pair of functions in the place of \<^verbatim>\<open>json.Marshal\<close> and
  \<^verbatim>\<open>json.Unmarshal\<close>. Concrete runs use a small codec over JSON values in the shape of
  the \<^verbatim>\<open>json\<close> tags of Order: an object with one member for each field, a timestamp
  standing for its RFC 3339 text.
\<close>

datatype json = JNull | JString string | JNumber real | JTime time | JObject "(string \<times> json) list"

definition json_Marshal :: "Order \<Rightarrow> error + json" where
  "json_Marshal ord =
     Inr (JObject
       [(''id'', JString (ID ord)), (''customer_id'', JString (CustomerID ord)),
        (''product_id'', JString (ProductID ord)), (''quantity'', JNumber (of_int (Quantity ord))),
        (''total_price'', JNumber (TotalPrice ord)), (''status'', JString (Status ord)),
        (''order_time'', JTime (OrderTime ord)), (''created_at'', JTime (CreatedAt ord)),
        (''updated_at'', JTime (UpdatedAt ord))])"

text \<open>
  Decoding into a fresh Order: a member that is absent or \<^verbatim>\<open>null\<close> leaves the zero value
  of its field, the last of several members of one name counts, members of other names
  are ignored, and the document \<^verbatim>\<open>null\<close> decodes to the zero Order. A member of the
  wrong kind and a document that is neither an object nor \<^verbatim>\<open>null\<close> are errors. Names are
  matched as they are written.
\<close>

definition json_member :: "(string \<times> json) list \<Rightarrow> string \<Rightarrow> json" where
  "json_member kvs k = (case map_of (rev kvs) k of None \<Rightarrow> JNull | Some v \<Rightarrow> v)"

definition get_string :: "(string \<times> json) list \<Rightarrow> string \<Rightarrow> string option" where
  "get_string kvs k =
     (case json_member kvs k of JNull \<Rightarrow> Some [] | JString v \<Rightarrow> Some v | _ \<Rightarrow> None)"

definition get_time :: "(string \<times> json) list \<Rightarrow> string \<Rightarrow> time option" where
  "get_time kvs k =
     (case json_member kvs k of JNull \<Rightarrow> Some 0 | JTime v \<Rightarrow> Some v | _ \<Rightarrow> None)"

definition get_real :: "(string \<times> json) list \<Rightarrow> string \<Rightarrow> real option" where
  "get_real kvs k =
     (case json_member kvs k of JNull \<Rightarrow> Some 0 | JNumber v \<Rightarrow> Some v | _ \<Rightarrow> None)"

definition get_int :: "(string \<times> json) list \<Rightarrow> string \<Rightarrow> int option" where
  "get_int kvs k =
     (case json_member kvs k of
        JNull \<Rightarrow> Some 0
      | JNumber v \<Rightarrow> if of_int (floor v) = v then Some (floor v) else None
      | _ \<Rightarrow> None)"

definition zero_Order :: Order where
  "zero_Order =
     \<lparr>ID = [], CustomerID = [], ProductID = [], Quantity = 0, TotalPrice = 0, Status = [],
      OrderTime = 0, CreatedAt = 0, UpdatedAt = 0\<rparr>"

definition json_Unmarshal :: "json \<Rightarrow> error + Order" where
  "json_Unmarshal j =
     (case j of
        JNull \<Rightarrow> Inr zero_Order
      | JObject kvs \<Rightarrow>
          (case (get_string kvs ''id'', get_string kvs ''customer_id'', get_string kvs ''product_id'',
                 get_int kvs ''quantity'', get_real kvs ''total_price'', get_string kvs ''status'',
                 get_time kvs ''order_time'', get_time kvs ''created_at'', get_time kvs ''updated_at'') of
             (Some i, Some cu, Some pr, Some q, Some tp, Some st, Some ot, Some ca, Some ua) \<Rightarrow>
               Inr \<lparr>ID = i, CustomerID = cu, ProductID = pr, Quantity = q, TotalPrice = tp,
                    Status = st, OrderTime = ot, CreatedAt = ca, UpdatedAt = ua\<rparr>
           | _ \<Rightarrow> Inl (JsonError ''cannot unmarshal into Order''))
      | _ \<Rightarrow> Inl (JsonError ''cannot unmarshal into Order''))"

definition json_codec :: "json codec" where
  "json_codec = \<lparr>Marshal = json_Marshal, Unmarshal = json_Unmarshal\<rparr>"

section \<open>Concrete inputs\<close>

definition ex_state :: "json state" where
  "ex_state =
     \<lparr>orders = [], idempotency_keys = [], eventChan = [], chan_cap = 1, receiver_parked = False,
      logs = []\<rparr>"

definition ex_env :: env where
  "ex_env =
     \<lparr>db_now = 1000, select_err = None, now_order = 1001,
      uuid_random = 0x0123456789abcdef0123456789abcdef, insert_err = None, now_valid = 1002,
      now_stored = 1003, upsert_err = None, now_event = 62135596805000000000, ctx_done = False,
      select_pick = 0\<rparr>"

definition ex_request :: CreateOrderRequest where
  "ex_request =
     \<lparr>req_CustomerID = ''c1'', req_ProductID = ''p1'', req_Quantity = 2, req_TotalPrice = 100.5,
      req_OrderTime = 0, req_IdempotencyKey = ''k1''\<rparr>"

definition ex_order :: Order where
  "ex_order =
     \<lparr>ID = ''01234567-89ab-4def-8123-456789abcdef'', CustomerID = ''c1'', ProductID = ''p1'',
      Quantity = 2, TotalPrice = 100.5, Status = ''created'', OrderTime = 1001, CreatedAt = 1001,
      UpdatedAt = 1001\<rparr>"

definition ex_event :: OrderCreatedEvent where
  "ex_event =
     \<lparr>ev_OrderID = ''00000000-0000-4000-8000-000000000000'', ev_CustomerID = ''c0'',
      ev_ProductID = ''p0'', ev_Quantity = 1, ev_TotalPrice = 1, ev_Timestamp = 4\<rparr>"

definition ex_full_state :: "json state" where
  "ex_full_state = ex_state\<lparr>eventChan := [ex_event]\<rparr>"

definition ex_cancelled_env :: env where
  "ex_cancelled_env = ex_env\<lparr>ctx_done := True\<rparr>"

definition ex_failing_env :: env where
  "ex_failing_env = ex_env\<lparr>insert_err := Some ''connection reset''\<rparr>"



definition ex_json :: json where
  "ex_json =
     JObject
       [(''id'', JString ''01234567-89ab-4def-8123-456789abcdef''), (''customer_id'', JString ''c1''),
        (''product_id'', JString ''p1''), (''quantity'', JNumber 2), (''total_price'', JNumber 100.5),
        (''status'', JString ''created''), (''order_time'', JTime 1001), (''created_at'', JTime 1001),
        (''updated_at'', JTime 1001)]"

definition ex_row :: "json idempotency_row" where
  "ex_row =
     \<lparr>ik_endpoint_name = ''/orders'', ik_endpoint_scheme = ''POST'', ik_key = ''k1'',
      ik_response = ex_json, ik_valid_to = 600000001002, ik_created_at = 1003\<rparr>"

definition ex_state1 :: "json state" where
  "ex_state1 =
     \<lparr>orders = [ex_order], idempotency_keys = [ex_row],
      eventChan =
        [\<lparr>ev_OrderID = ''01234567-89ab-4def-8123-456789abcdef'', ev_CustomerID = ''c1'',
          ev_ProductID = ''p1'', ev_Quantity = 2, ev_TotalPrice = 100.5, ev_Timestamp = 5\<rparr>],
      chan_cap = 1, receiver_parked = False,
      logs = [(Info, ''Order created successfully''), (Info, ''OrderCreated event emitted'')]\<rparr>"

definition ex_request2 :: CreateOrderRequest where
  "ex_request2 =
     \<lparr>req_CustomerID = ''c2'', req_ProductID = ''p2'', req_Quantity = 5, req_TotalPrice = 7,
      req_OrderTime = 44, req_IdempotencyKey = ''k1''\<rparr>"

definition ex_env2 :: env where
  "ex_env2 =
     \<lparr>db_now = 600000001001, select_err = None, now_order = 600000001001,
      uuid_random = 0xfedcba9876543210fedcba9876543210, insert_err = None, now_valid = 600000001001,
      now_stored = 600000001001, upsert_err = None, now_event = 62135596805000000000, ctx_done = False,
      select_pick = 0\<rparr>"


definition ex_worker :: worker where
  "ex_worker =
     \<lparr>w_eventChan = [ex_event], w_ctx_done = False, w_stopChan_closed = False, w_processed = [],
      w_logs = []\<rparr>"

definition ex_worker_idle :: worker where
  "ex_worker_idle = ex_worker\<lparr>w_eventChan := []\<rparr>"

definition ex_worker_cancelled :: worker where
  "ex_worker_cancelled = ex_worker\<lparr>w_ctx_done := True\<rparr>"

definition ex_tick :: tick where
  "ex_tick = \<lparr>t_arrive = [], t_cancel = False, t_stop = False, t_pick = 0\<rparr>"



definition ex_busy_tick :: tick where
  "ex_busy_tick = \<lparr>t_arrive = [ex_event], t_cancel = False, t_stop = False, t_pick = 0\<rparr>"

definition ex_cancel_tick :: tick where
  "ex_cancel_tick = \<lparr>t_arrive = [], t_cancel = True, t_stop = False, t_pick = 0\<rparr>"

definition ex_stop_tick :: tick where
  "ex_stop_tick = \<lparr>t_arrive = [], t_cancel = False, t_stop = True, t_pick = 1\<rparr>"

definition ex_worker_busy :: worker where
  "ex_worker_busy =
     \<lparr>w_eventChan = [ex_event], w_ctx_done = True, w_stopChan_closed = False,
      w_processed = [ex_event, ex_event, ex_event],
      w_logs =
        [(Info, ''Event worker started''),
         (Info, ''Processing OrderCreated event''), (Info, ''OrderCreated event processed successfully''),
         (Info, ''Processing OrderCreated event''), (Info, ''OrderCreated event processed successfully''),
         (Info, ''Processing OrderCreated event''), (Info, ''OrderCreated event processed successfully'')]\<rparr>"

definition ex_worker_mid :: worker where
  "ex_worker_mid =
     \<lparr>w_eventChan = [], w_ctx_done = False, w_stopChan_closed = False, w_processed = [ex_event],
      w_logs =
        [(Info, ''Event worker started''),
         (Info, ''Processing OrderCreated event''), (Info, ''OrderCreated event processed successfully'')]\<rparr>"

definition ex_worker_done :: worker where
  "ex_worker_done =
     \<lparr>w_eventChan = [], w_ctx_done = True, w_stopChan_closed = False, w_processed = [ex_event],
      w_logs =
        [(Info, ''Event worker started''),
         (Info, ''Processing OrderCreated event''), (Info, ''OrderCreated event processed successfully''),
         (Info, ''Event worker stopping due to context cancellation'')]\<rparr>"

section \<open>Validation of a creation request\<close>

lemma binding_CustomerID: "Lookup tag_CustomerID ''binding'' = Some ''required''"
  by code_simp

lemma binding_ProductID: "Lookup tag_ProductID ''binding'' = Some ''required''"
  by code_simp

lemma binding_Quantity: "Lookup tag_Quantity ''binding'' = Some ''required,min=1''"
  by code_simp

lemma binding_TotalPrice: "Lookup tag_TotalPrice ''binding'' = Some ''required,min=0''"
  by code_simp

lemma binding_OrderTime: "Lookup tag_OrderTime ''binding'' = None"
  by code_simp

lemma binding_IdempotencyKey: "Lookup tag_IdempotencyKey ''binding'' = Some ''required''"
  by code_simp

lemma rule_required: "parse_rule ''required'' = Required"
  by code_simp

lemma rule_min1: "parse_rule ''min=1'' = Min ''1''"
  by code_simp

lemma rule_min0: "parse_rule ''min=0'' = Min ''0''"
  by code_simp

lemma param_1: "parse_param ''1'' = Some 1"
  by code_simp

lemma param_0: "parse_param ''0'' = Some 0"
  by code_simp

lemma field_CustomerID: "validate_field tag_CustomerID (VString x) = (if x \<noteq> [] then Valid else Invalid)"
  by (simp add: validate_field_def binding_CustomerID rule_required)

lemma field_ProductID: "validate_field tag_ProductID (VString x) = (if x \<noteq> [] then Valid else Invalid)"
  by (simp add: validate_field_def binding_ProductID rule_required)

lemma field_IdempotencyKey: "validate_field tag_IdempotencyKey (VString x) = (if x \<noteq> [] then Valid else Invalid)"
  by (simp add: validate_field_def binding_IdempotencyKey rule_required)

lemma field_Quantity: "validate_field tag_Quantity (VInt n) = (if 1 \<le> n then Valid else Invalid)"
  by (simp add: validate_field_def binding_Quantity rule_required rule_min1 param_1)

lemma field_TotalPrice: "validate_field tag_TotalPrice (VFloat r) = (if 0 < r then Valid else Invalid)"
  by (simp add: validate_field_def binding_TotalPrice rule_required rule_min0 param_0)

lemma field_OrderTime: "validate_field tag_OrderTime v = Valid"
  by (simp add: validate_field_def binding_OrderTime)

lemma validate_request_iff:
  "validate_request req =
     (if req_CustomerID req \<noteq> [] \<and> req_ProductID req \<noteq> [] \<and> 1 \<le> req_Quantity req \<and>
         0 < req_TotalPrice req \<and> req_IdempotencyKey req \<noteq> []
      then Valid else Invalid)"
  by (simp add: validate_request_def request_fields_def field_CustomerID field_ProductID
      field_IdempotencyKey field_Quantity field_TotalPrice field_OrderTime)

lemma uuid_String_nonempty: "uuid_String u \<noteq> []"
  by (simp add: uuid_String_def)

text \<open>
  C3. The claim: validation rejects a body exactly when the quantity is not a positive
  integer, the total price is negative or a required field is missing, so that a request
  with quantity at least 1, total price at least 0 and every required field present
  passes. The code rejects a total price of 0: the \<^verbatim>\<open>required\<close> rule of the tag
  \<^verbatim>\<open>binding:"required,min=0"\<close> fails on the zero value of a \<^verbatim>\<open>float64\<close> before
  \<^verbatim>\<open>min=0\<close> is looked at. The request below has every required field, quantity 1 and
  total price 0; it is answered with status 400.
\<close>

theorem zero_total_price_rejected:
  "validate_request
     \<lparr>req_CustomerID = ''c1'', req_ProductID = ''p1'', req_Quantity = 1, req_TotalPrice = 0,
      req_OrderTime = 0, req_IdempotencyKey = ''k1''\<rparr> = Invalid \<and>
   handler_CreateOrder c e path method
     (Decoded \<lparr>req_CustomerID = ''c1'', req_ProductID = ''p1'', req_Quantity = 1,
               req_TotalPrice = 0, req_OrderTime = 0, req_IdempotencyKey = ''k1''\<rparr>) s =
     (Some (400, ErrorJSON ''Invalid request body''), log Warn ''Invalid request body'' s)"
  by (simp add: handler_CreateOrder_def validate_request_iff)

text \<open>
  C4. \<^verbatim>\<open>order_time\<close> is optional and every other field of a creation request is
  required: the verdict of the validation does not depend on the order time, and a valid
  request holds no zero value in any other field. For a draft whose order time is zero,
  CreateOrder of the repository, when the insert succeeds, returns the order with the
  order time, the creation time and the update time all set to the current time, the
  status \<^verbatim>\<open>created\<close>, and an identifier that is not empty and is the identifier of no row
  that was in the table; the other fields are those of the draft, and the order is the
  row added to the table.
\<close>

theorem order_time_optional_create_populates:
  "validate_request (req\<lparr>req_OrderTime := t\<rparr>) = validate_request req \<and>
   (validate_request req = Valid \<longrightarrow>
      req_CustomerID req \<noteq> [] \<and> req_ProductID req \<noteq> [] \<and> req_Quantity req \<noteq> 0 \<and>
      req_TotalPrice req \<noteq> 0 \<and> req_IdempotencyKey req \<noteq> []) \<and>
   (IsZero (OrderTime draft) \<and> repo_CreateOrder e draft s = (None, ord, s') \<longrightarrow>
      OrderTime ord = now_order e \<and> CreatedAt ord = now_order e \<and> UpdatedAt ord = now_order e \<and>
      Status ord = ''created'' \<and> ID ord \<noteq> [] \<and> ID ord \<notin> set (map ID (orders s)) \<and>
      CustomerID ord = CustomerID draft \<and> ProductID ord = ProductID draft \<and>
      Quantity ord = Quantity draft \<and> TotalPrice ord = TotalPrice draft \<and>
      orders s' = orders s @ [ord])"
proof (intro conjI impI)
  show "validate_request (req\<lparr>req_OrderTime := t\<rparr>) = validate_request req"
    by (simp add: validate_request_iff)
next
  assume v: "validate_request req = Valid"
  then have all: "req_CustomerID req \<noteq> [] \<and> req_ProductID req \<noteq> [] \<and> 1 \<le> req_Quantity req \<and>
      0 < req_TotalPrice req \<and> req_IdempotencyKey req \<noteq> []"
    by (simp add: validate_request_iff split: if_splits)
  from all show "req_CustomerID req \<noteq> []" by simp
  from all show "req_ProductID req \<noteq> []" by simp
  from all show "req_Quantity req \<noteq> 0" by auto
  from all show "req_TotalPrice req \<noteq> 0" by auto
  from all show "req_IdempotencyKey req \<noteq> []" by simp
next
  assume h: "IsZero (OrderTime draft) \<and> repo_CreateOrder e draft s = (None, ord, s')"
  define new_id where "new_id = uuid_String (uuid_New (uuid_random e))"
  from h have ok: "insert_err e = None" "new_id \<notin> set (map ID (orders s))"
    by (auto simp: repo_CreateOrder_def Let_def new_id_def split: option.splits if_splits)
  from h ok have ord: "ord = draft\<lparr>ID := new_id, OrderTime := now_order e, CreatedAt := now_order e,
      UpdatedAt := now_order e, Status := ''created''\<rparr>"
    and s': "s' = log Info ''Order created successfully'' (s\<lparr>orders := orders s @ [ord]\<rparr>)"
    by (auto simp: repo_CreateOrder_def Let_def new_id_def split: option.splits if_splits)
  from ord show "OrderTime ord = now_order e" by simp
  from ord show "CreatedAt ord = now_order e" by simp
  from ord show "UpdatedAt ord = now_order e" by simp
  from ord show "Status ord = ''created''" by simp
  from ord show "ID ord \<noteq> []" by (simp add: new_id_def uuid_String_nonempty)
  from ord ok show "ID ord \<notin> set (map ID (orders s))" by simp
  from ord show "CustomerID ord = CustomerID draft" by simp
  from ord show "ProductID ord = ProductID draft" by simp
  from ord show "Quantity ord = Quantity draft" by simp
  from ord show "TotalPrice ord = TotalPrice draft" by simp
  from s' show "orders s' = orders s @ [ord]" by (simp add: log_def)
qed

lemma ex_request_valid: "validate_request ex_request = Valid"
  by code_simp

lemma ex_repo_CreateOrder:
  "repo_CreateOrder ex_env (draft_order ex_request) ex_state =
     (None, ex_order, log Info ''Order created successfully'' (ex_state\<lparr>orders := [ex_order]\<rparr>))"
  by code_simp

theorem order_time_optional_create_populates_witness:
  "validate_request ex_request = Valid \<and> req_OrderTime ex_request = 0 \<and>
   IsZero (OrderTime (draft_order ex_request)) \<and>
   repo_CreateOrder ex_env (draft_order ex_request) ex_state =
     (None, ex_order, log Info ''Order created successfully'' (ex_state\<lparr>orders := [ex_order]\<rparr>)) \<and>
   OrderTime ex_order = now_order ex_env \<and> Status ex_order = ''created'' \<and> ID ex_order \<noteq> []"
  using order_time_optional_create_populates [where req = ex_request and t = 0
      and draft = "draft_order ex_request" and e = ex_env and s = ex_state and ord = ex_order
      and s' = "log Info ''Order created successfully'' (ex_state\<lparr>orders := [ex_order]\<rparr>)"]
    ex_request_valid ex_repo_CreateOrder
  by (simp add: ex_request_def draft_order_def IsZero_def)

section \<open>Frames and paths of CreateOrder\<close>

lemma go_select_Case: "go_select ready d p = Case i \<Longrightarrow> i < length ready \<and> ready ! i"
proof -
  assume h: "go_select ready d p = Case i"
  define rs where "rs = filter (\<lambda>i. ready ! i) [0..<length ready]"
  from h have ne: "rs \<noteq> []" and i: "i = rs ! (p mod length rs)"
    by (auto simp: go_select_def Let_def rs_def split: if_splits)
  from ne have "p mod length rs < length rs" by simp
  then have "i \<in> set rs" using i by simp
  then show ?thesis by (simp add: rs_def)
qed

lemma go_select_none: "go_select ready d p = (if d then Default else Parked) \<longleftrightarrow> (\<forall>i < length ready. \<not> ready ! i)"
  by (auto simp: go_select_def Let_def filter_empty_conv)

lemma go_select_no_default: "go_select ready False p \<noteq> Default"
  by (simp add: go_select_def Let_def)

lemma log_frame [simp]:
  "orders (log l m s) = orders s" "idempotency_keys (log l m s) = idempotency_keys s"
  "eventChan (log l m s) = eventChan s" "chan_cap (log l m s) = chan_cap s"
  "receiver_parked (log l m s) = receiver_parked s" "logs (log l m s) = logs s @ [(l, m)]"
  by (simp_all add: log_def)

lemma nth_pick2: "[0, Suc 0] ! (p mod 2) = p mod 2"
proof -
  have "p mod 2 = 0 \<or> p mod 2 = 1" by arith
  then show ?thesis by auto
qed

lemma go_select_two:
  "go_select [a, b] d p =
     (if a \<and> b then Case (p mod 2) else if a then Case 0 else if b then Case 1
      else if d then Default else Parked)"
  using nth_pick2 [of p]
  by (cases a; cases b) (simp_all add: go_select_def Let_def upt_rec numeral_2_eq_2)

lemma emit_cases:
  "emit e ev oid s =
     (if send_ready s \<and> (ctx_done e \<longrightarrow> even (select_pick e))
      then (Delivered, log Info ''OrderCreated event emitted'' (send ev s))
      else if ctx_done e
      then (DroppedCancelled, log Warn ''Context cancelled before event could be emitted'' s)
      else (DroppedFull, log Warn ''Event channel full, event not emitted'' s))"
  by (cases "send_ready s"; cases "ctx_done e") (auto simp: emit_def go_select_two)


lemma send_frame [simp]:
  "orders (send ev s) = orders s" "idempotency_keys (send ev s) = idempotency_keys s"
  "eventChan (send ev s) = eventChan s @ [ev]" "logs (send ev s) = logs s"
  by (simp_all add: send_def)

lemma emit_never_blocks: "fst (emit e ev oid s) \<noteq> Blocked"
  by (simp add: emit_cases)


lemma GetIdempotencyResponse_frame:
  assumes "GetIdempotencyResponse e name scheme k s = (r, s')"
  shows "orders s' = orders s" "idempotency_keys s' = idempotency_keys s"
    "eventChan s' = eventChan s" "chan_cap s' = chan_cap s" "receiver_parked s' = receiver_parked s"
  using assms by (auto simp: GetIdempotencyResponse_def split: option.splits)

lemma check_idempotency_frame:
  assumes "check_idempotency c e name scheme req s = (r, s')"
  shows "orders s' = orders s" "idempotency_keys s' = idempotency_keys s"
    "eventChan s' = eventChan s" "chan_cap s' = chan_cap s" "receiver_parked s' = receiver_parked s"
  using assms
  by (auto simp: check_idempotency_def Let_def split: prod.splits sum.splits if_splits
      dest: GetIdempotencyResponse_frame)

lemma repo_CreateOrder_error_frame:
  assumes "repo_CreateOrder e draft s = (Some err, ord, s')"
  shows "orders s' = orders s" "idempotency_keys s' = idempotency_keys s" "eventChan s' = eventChan s"
  using assms by (auto simp: repo_CreateOrder_def Let_def split: option.splits if_splits)

lemma repo_CreateOrder_ok:
  assumes "repo_CreateOrder e draft s = (None, ord, s')"
  shows "orders s' = orders s @ [ord]" "idempotency_keys s' = idempotency_keys s"
    "eventChan s' = eventChan s" "chan_cap s' = chan_cap s" "receiver_parked s' = receiver_parked s"
    "ID ord \<notin> set (map ID (orders s))" "ID ord = uuid_String (uuid_New (uuid_random e))"
  using assms by (auto simp: repo_CreateOrder_def Let_def split: option.splits if_splits)

text \<open>The outcome of the insert depends on the environment and on the rows of orders only.\<close>

lemma repo_CreateOrder_fst_cong:
  "orders s1 = orders s \<Longrightarrow> fst (repo_CreateOrder e draft s1) = fst (repo_CreateOrder e draft s)"
  by (simp add: repo_CreateOrder_def Let_def split: option.splits)

lemma StoreIdempotencyResponse_frame:
  assumes "StoreIdempotencyResponse c e name scheme k resp d s = (r, s')"
  shows "orders s' = orders s" "eventChan s' = eventChan s" "chan_cap s' = chan_cap s"
    "receiver_parked s' = receiver_parked s"
  using assms
  by (auto simp: StoreIdempotencyResponse_def Let_def split: sum.splits option.splits)

text \<open>CreateOrder, unfolded along its two paths.\<close>

lemma CreateOrder_hit:
  "check_idempotency c e name scheme req s = (Some saved, s2) \<Longrightarrow>
   CreateOrder c e name scheme req s = (Some (Inr saved), s2)"
  by (simp add: CreateOrder_def)

lemma CreateOrder_persist_error:
  "check_idempotency c e name scheme req s = (None, s2) \<Longrightarrow>
   repo_CreateOrder e (draft_order req) s2 = (Some err, ord, s3) \<Longrightarrow>
   CreateOrder c e name scheme req s = (Some (Inl err), s3)"
  by (simp add: CreateOrder_def)

lemma CreateOrder_created:
  assumes "check_idempotency c e name scheme req s = (None, s2)"
    and "repo_CreateOrder e (draft_order req) s2 = (None, ord, s3)"
    and "StoreIdempotencyResponse c e name scheme (req_IdempotencyKey req) ord (10 * Minute) s3 = (serr, s4)"
  shows "CreateOrder c e name scheme req s =
     (Some (Inr ord),
      snd (emit e (event_of e ord) (ID ord)
        (case serr of Some err \<Rightarrow> log Warn ''Failed to store idempotency response'' s4 | None \<Rightarrow> s4)))"
proof -
  let ?s5 = "case serr of Some err \<Rightarrow> log Warn ''Failed to store idempotency response'' s4 | None \<Rightarrow> s4"
  obtain out s6 where em: "emit e (event_of e ord) (ID ord) ?s5 = (out, s6)"
    by (cases "emit e (event_of e ord) (ID ord) ?s5")
  with emit_never_blocks [of e "event_of e ord" "ID ord" ?s5] have "out \<noteq> Blocked" by simp
  with assms em show ?thesis
    by (cases out) (simp_all add: CreateOrder_def Let_def)
qed


lemma repo_CreateOrder_snd_cong:
  "orders s1 = orders s \<Longrightarrow>
   fst (snd (repo_CreateOrder e draft s1)) = fst (snd (repo_CreateOrder e draft s))"
  by (simp add: repo_CreateOrder_def Let_def split: option.splits)


lemma send_ready_cong:
  "eventChan s' = eventChan s \<Longrightarrow> chan_cap s' = chan_cap s \<Longrightarrow> receiver_parked s' = receiver_parked s \<Longrightarrow>
   send_ready s' = send_ready s"
  by (simp add: send_ready_def)

lemma CreateOrder_created_state:
  assumes "fst (check_idempotency c e name scheme req s) = None"
    and "fst (repo_CreateOrder e (draft_order req) s) = None"
  obtains s5 where
    "CreateOrder c e name scheme req s =
       (Some (Inr (fst (snd (repo_CreateOrder e (draft_order req) s)))),
        snd (emit e (event_of e (fst (snd (repo_CreateOrder e (draft_order req) s))))
               (ID (fst (snd (repo_CreateOrder e (draft_order req) s)))) s5))"
    "orders s5 = orders s @ [fst (snd (repo_CreateOrder e (draft_order req) s))]"
    "eventChan s5 = eventChan s" "send_ready s5 = send_ready s"
proof -
  let ?ord = "fst (snd (repo_CreateOrder e (draft_order req) s))"
  obtain s1 where chk: "check_idempotency c e name scheme req s = (None, s1)"
    using assms(1) by (cases "check_idempotency c e name scheme req s") simp
  note f1 = check_idempotency_frame [OF chk]
  have ordeq: "fst (snd (repo_CreateOrder e (draft_order req) s1)) = ?ord"
    using repo_CreateOrder_snd_cong [OF f1(1)] .
  have "fst (repo_CreateOrder e (draft_order req) s1) = None"
    using assms(2) repo_CreateOrder_fst_cong [OF f1(1)] by simp
  with ordeq obtain s3 where ins: "repo_CreateOrder e (draft_order req) s1 = (None, ?ord, s3)"
    by (cases "repo_CreateOrder e (draft_order req) s1") auto
  note f3 = repo_CreateOrder_ok [OF ins]
  obtain serr s4 where st:
    "StoreIdempotencyResponse c e name scheme (req_IdempotencyKey req) ?ord (10 * Minute) s3 = (serr, s4)"
    by (cases "StoreIdempotencyResponse c e name scheme (req_IdempotencyKey req) ?ord (10 * Minute) s3")
  note f4 = StoreIdempotencyResponse_frame [OF st]
  let ?s5 = "case serr of Some err \<Rightarrow> log Warn ''Failed to store idempotency response'' s4 | None \<Rightarrow> s4"
  have s5: "orders ?s5 = orders s4" "eventChan ?s5 = eventChan s4" "chan_cap ?s5 = chan_cap s4"
    "receiver_parked ?s5 = receiver_parked s4"
    by (cases serr; simp)+
  have "orders ?s5 = orders s @ [?ord]" using s5 f4 f3 f1 by simp
  moreover have ec: "eventChan ?s5 = eventChan s" using s5 f4 f3 f1 by simp
  moreover have "send_ready ?s5 = send_ready s"
    using s5 f4 f3 f1 by (intro send_ready_cong) simp_all
  ultimately show thesis
    using that [of ?s5] CreateOrder_created [OF chk ins st] by simp
qed

section \<open>Order creation: failures and event emission\<close>

text \<open>
  C2. When the request is not answered from the idempotency store and the insert of the
  new order fails, CreateOrder returns the error of the insert; the idempotency table,
  the event channel and the orders table are as they were: no idempotency record is
  written and no event is emitted.
\<close>

theorem persist_failure_aborts:
  assumes "fst (check_idempotency c e name scheme req s) = None"
    and "fst (repo_CreateOrder e (draft_order req) s) = Some err"
  shows "fst (CreateOrder c e name scheme req s) = Some (Inl err) \<and>
         idempotency_keys (snd (CreateOrder c e name scheme req s)) = idempotency_keys s \<and>
         eventChan (snd (CreateOrder c e name scheme req s)) = eventChan s \<and>
         orders (snd (CreateOrder c e name scheme req s)) = orders s"
proof -
  obtain s1 where chk: "check_idempotency c e name scheme req s = (None, s1)"
    using assms(1) by (cases "check_idempotency c e name scheme req s") simp
  have same: "orders s1 = orders s" "idempotency_keys s1 = idempotency_keys s" "eventChan s1 = eventChan s"
    using check_idempotency_frame [OF chk] by simp_all
  have "fst (repo_CreateOrder e (draft_order req) s1) = Some err"
    using assms(2) repo_CreateOrder_fst_cong [OF same(1)] by simp
  then obtain ord s2 where ins: "repo_CreateOrder e (draft_order req) s1 = (Some err, ord, s2)"
    by (cases "repo_CreateOrder e (draft_order req) s1") auto
  have res: "CreateOrder c e name scheme req s = (Some (Inl err), s2)"
    using CreateOrder_persist_error [OF chk ins] .
  show ?thesis
    using res same repo_CreateOrder_error_frame [OF ins] by simp
qed

lemma ex_failing_miss:
  "fst (check_idempotency json_codec ex_failing_env ''/orders'' ''POST'' ex_request ex_state) = None"
  by code_simp

lemma ex_failing_insert:
  "fst (repo_CreateOrder ex_failing_env (draft_order ex_request) ex_state) = Some (DbError ''connection reset'')"
  by code_simp

theorem persist_failure_aborts_witness:
  "fst (check_idempotency json_codec ex_failing_env ''/orders'' ''POST'' ex_request ex_state) = None \<and>
   fst (repo_CreateOrder ex_failing_env (draft_order ex_request) ex_state) = Some (DbError ''connection reset'') \<and>
   fst (CreateOrder json_codec ex_failing_env ''/orders'' ''POST'' ex_request ex_state) =
     Some (Inl (DbError ''connection reset'')) \<and>
   idempotency_keys (snd (CreateOrder json_codec ex_failing_env ''/orders'' ''POST'' ex_request ex_state)) = [] \<and>
   eventChan (snd (CreateOrder json_codec ex_failing_env ''/orders'' ''POST'' ex_request ex_state)) = [] \<and>
   orders (snd (CreateOrder json_codec ex_failing_env ''/orders'' ''POST'' ex_request ex_state)) = []"
  using persist_failure_aborts [OF ex_failing_miss ex_failing_insert] ex_failing_miss ex_failing_insert
  by (simp add: ex_state_def)

text \<open>
  C6. The select that sends the creation event never parks the request: its outcome is
  one of delivered (the send was ready; the event is appended to the channel), dropped
  because the context is cancelled, and dropped because the channel is full (neither the
  send nor the cancellation was ready), each with its own log line and the two drops
  leaving the channel as it was. Whatever the channel, the context and the pick of the
  runtime are, a request that is not a replay and whose insert succeeds returns the
  persisted order, and the state it leaves shows the outcome of the select: when the send
  was ready and taken, the channel of the request's final state is the old channel with
  the event of the persisted order appended and the last log line is the emission; when
  the cancelled context was taken, or neither was ready, the channel is the old one and the
  last log line is the matching warning.
\<close>

theorem emit_three_outcomes:
  "fst (emit e ev oid s) \<noteq> Blocked \<and>
   (fst (emit e ev oid s) = Delivered \<longrightarrow>
      send_ready s \<and> eventChan (snd (emit e ev oid s)) = eventChan s @ [ev] \<and>
      logs (snd (emit e ev oid s)) = logs s @ [(Info, ''OrderCreated event emitted'')]) \<and>
   (fst (emit e ev oid s) = DroppedCancelled \<longrightarrow>
      ctx_done e \<and> eventChan (snd (emit e ev oid s)) = eventChan s \<and>
      logs (snd (emit e ev oid s)) = logs s @ [(Warn, ''Context cancelled before event could be emitted'')]) \<and>
   (fst (emit e ev oid s) = DroppedFull \<longrightarrow>
      \<not> send_ready s \<and> \<not> ctx_done e \<and> eventChan (snd (emit e ev oid s)) = eventChan s \<and>
      logs (snd (emit e ev oid s)) = logs s @ [(Warn, ''Event channel full, event not emitted'')]) \<and>
   (fst (check_idempotency c e name scheme req s) = None \<and>
    fst (repo_CreateOrder e (draft_order req) s) = None \<longrightarrow>
      fst (CreateOrder c e name scheme req s) = Some (Inr (fst (snd (repo_CreateOrder e (draft_order req) s)))) \<and>
      orders (snd (CreateOrder c e name scheme req s)) =
        orders s @ [fst (snd (repo_CreateOrder e (draft_order req) s))] \<and>
      (send_ready s \<and> (ctx_done e \<longrightarrow> even (select_pick e)) \<longrightarrow>
         eventChan (snd (CreateOrder c e name scheme req s)) =
           eventChan s @ [event_of e (fst (snd (repo_CreateOrder e (draft_order req) s)))] \<and>
         last (logs (snd (CreateOrder c e name scheme req s))) = (Info, ''OrderCreated event emitted'')) \<and>
      (ctx_done e \<and> (send_ready s \<longrightarrow> odd (select_pick e)) \<longrightarrow>
         eventChan (snd (CreateOrder c e name scheme req s)) = eventChan s \<and>
         last (logs (snd (CreateOrder c e name scheme req s))) =
           (Warn, ''Context cancelled before event could be emitted'')) \<and>
      (\<not> send_ready s \<and> \<not> ctx_done e \<longrightarrow>
         eventChan (snd (CreateOrder c e name scheme req s)) = eventChan s \<and>
         last (logs (snd (CreateOrder c e name scheme req s))) =
           (Warn, ''Event channel full, event not emitted'')))"
proof (intro conjI)
  show "fst (emit e ev oid s) \<noteq> Blocked" by (rule emit_never_blocks)
next
  show "fst (emit e ev oid s) = Delivered \<longrightarrow>
      send_ready s \<and> eventChan (snd (emit e ev oid s)) = eventChan s @ [ev] \<and>
      logs (snd (emit e ev oid s)) = logs s @ [(Info, ''OrderCreated event emitted'')]"
    by (simp add: emit_cases split: if_splits)
next
  show "fst (emit e ev oid s) = DroppedCancelled \<longrightarrow>
      ctx_done e \<and> eventChan (snd (emit e ev oid s)) = eventChan s \<and>
      logs (snd (emit e ev oid s)) = logs s @ [(Warn, ''Context cancelled before event could be emitted'')]"
    by (simp add: emit_cases split: if_splits)
next
  show "fst (emit e ev oid s) = DroppedFull \<longrightarrow>
      \<not> send_ready s \<and> \<not> ctx_done e \<and> eventChan (snd (emit e ev oid s)) = eventChan s \<and>
      logs (snd (emit e ev oid s)) = logs s @ [(Warn, ''Event channel full, event not emitted'')]"
    by (simp add: emit_cases split: if_splits)
next
  let ?ord = "fst (snd (repo_CreateOrder e (draft_order req) s))"
  let ?s' = "snd (CreateOrder c e name scheme req s)"
  show "fst (check_idempotency c e name scheme req s) = None \<and>
    fst (repo_CreateOrder e (draft_order req) s) = None \<longrightarrow>
      fst (CreateOrder c e name scheme req s) = Some (Inr ?ord) \<and>
      orders ?s' = orders s @ [?ord] \<and>
      (send_ready s \<and> (ctx_done e \<longrightarrow> even (select_pick e)) \<longrightarrow>
         eventChan ?s' = eventChan s @ [event_of e ?ord] \<and>
         last (logs ?s') = (Info, ''OrderCreated event emitted'')) \<and>
      (ctx_done e \<and> (send_ready s \<longrightarrow> odd (select_pick e)) \<longrightarrow>
         eventChan ?s' = eventChan s \<and>
         last (logs ?s') = (Warn, ''Context cancelled before event could be emitted'')) \<and>
      (\<not> send_ready s \<and> \<not> ctx_done e \<longrightarrow>
         eventChan ?s' = eventChan s \<and>
         last (logs ?s') = (Warn, ''Event channel full, event not emitted''))"
  proof
    assume h: "fst (check_idempotency c e name scheme req s) = None \<and>
      fst (repo_CreateOrder e (draft_order req) s) = None"
    then obtain s5 where
      res: "CreateOrder c e name scheme req s =
         (Some (Inr ?ord), snd (emit e (event_of e ?ord) (ID ?ord) s5))"
      and s5: "orders s5 = orders s @ [?ord]" "eventChan s5 = eventChan s" "send_ready s5 = send_ready s"
      using CreateOrder_created_state [of c e name scheme req s] by blast
    from res s5 show "fst (CreateOrder c e name scheme req s) = Some (Inr ?ord) \<and>
      orders ?s' = orders s @ [?ord] \<and>
      (send_ready s \<and> (ctx_done e \<longrightarrow> even (select_pick e)) \<longrightarrow>
         eventChan ?s' = eventChan s @ [event_of e ?ord] \<and>
         last (logs ?s') = (Info, ''OrderCreated event emitted'')) \<and>
      (ctx_done e \<and> (send_ready s \<longrightarrow> odd (select_pick e)) \<longrightarrow>
         eventChan ?s' = eventChan s \<and>
         last (logs ?s') = (Warn, ''Context cancelled before event could be emitted'')) \<and>
      (\<not> send_ready s \<and> \<not> ctx_done e \<longrightarrow>
         eventChan ?s' = eventChan s \<and>
         last (logs ?s') = (Warn, ''Event channel full, event not emitted''))"
      by (auto simp: emit_cases)
  qed
qed

lemma ex_full_dropped:
  "fst (emit ex_env (event_of ex_env ex_order) (ID ex_order) ex_full_state) = DroppedFull"
  by code_simp

lemma ex_cancelled_dropped:
  "fst (emit ex_cancelled_env (event_of ex_cancelled_env ex_order) (ID ex_order) ex_full_state) = DroppedCancelled"
  by code_simp

lemma ex_delivered:
  "fst (emit ex_env (event_of ex_env ex_order) (ID ex_order) ex_state) = Delivered"
  by code_simp

lemma ex_full_miss:
  "fst (check_idempotency json_codec ex_env ''/orders'' ''POST'' ex_request ex_full_state) = None"
  by code_simp

lemma ex_full_insert:
  "repo_CreateOrder ex_env (draft_order ex_request) ex_full_state =
     (None, ex_order, log Info ''Order created successfully'' (ex_full_state\<lparr>orders := [ex_order]\<rparr>))"
  by code_simp

lemma ex_miss: "fst (check_idempotency json_codec ex_env ''/orders'' ''POST'' ex_request ex_state) = None"
  by code_simp

lemma ex_cancelled_miss:
  "fst (check_idempotency json_codec ex_cancelled_env ''/orders'' ''POST'' ex_request ex_full_state) = None"
  by code_simp

lemma ex_cancelled_insert:
  "repo_CreateOrder ex_cancelled_env (draft_order ex_request) ex_full_state =
     (None, ex_order, log Info ''Order created successfully'' (ex_full_state\<lparr>orders := [ex_order]\<rparr>))"
  by code_simp

lemma ex_send_ready: "send_ready ex_state" "\<not> send_ready ex_full_state"
  by code_simp+

theorem emit_three_outcomes_witness:
  "fst (emit ex_env (event_of ex_env ex_order) (ID ex_order) ex_state) = Delivered \<and>
   eventChan (snd (emit ex_env (event_of ex_env ex_order) (ID ex_order) ex_state)) = [event_of ex_env ex_order] \<and>
   fst (emit ex_cancelled_env (event_of ex_cancelled_env ex_order) (ID ex_order) ex_full_state) = DroppedCancelled \<and>
   eventChan (snd (emit ex_cancelled_env (event_of ex_cancelled_env ex_order) (ID ex_order) ex_full_state)) = [ex_event] \<and>
   fst (emit ex_env (event_of ex_env ex_order) (ID ex_order) ex_full_state) = DroppedFull \<and>
   eventChan (snd (emit ex_env (event_of ex_env ex_order) (ID ex_order) ex_full_state)) = [ex_event] \<and>
   fst (check_idempotency json_codec ex_env ''/orders'' ''POST'' ex_request ex_state) = None \<and>
   fst (repo_CreateOrder ex_env (draft_order ex_request) ex_state) = None \<and>
   send_ready ex_state \<and> \<not> ctx_done ex_env \<and>
   fst (CreateOrder json_codec ex_env ''/orders'' ''POST'' ex_request ex_state) = Some (Inr ex_order) \<and>
   eventChan (snd (CreateOrder json_codec ex_env ''/orders'' ''POST'' ex_request ex_state)) =
     [event_of ex_env ex_order] \<and>
   last (logs (snd (CreateOrder json_codec ex_env ''/orders'' ''POST'' ex_request ex_state))) =
     (Info, ''OrderCreated event emitted'') \<and>
   fst (check_idempotency json_codec ex_cancelled_env ''/orders'' ''POST'' ex_request ex_full_state) = None \<and>
   fst (repo_CreateOrder ex_cancelled_env (draft_order ex_request) ex_full_state) = None \<and>
   ctx_done ex_cancelled_env \<and> \<not> send_ready ex_full_state \<and>
   fst (CreateOrder json_codec ex_cancelled_env ''/orders'' ''POST'' ex_request ex_full_state) =
     Some (Inr ex_order) \<and>
   eventChan (snd (CreateOrder json_codec ex_cancelled_env ''/orders'' ''POST'' ex_request ex_full_state)) =
     [ex_event] \<and>
   last (logs (snd (CreateOrder json_codec ex_cancelled_env ''/orders'' ''POST'' ex_request ex_full_state))) =
     (Warn, ''Context cancelled before event could be emitted'') \<and>
   fst (check_idempotency json_codec ex_env ''/orders'' ''POST'' ex_request ex_full_state) = None \<and>
   fst (repo_CreateOrder ex_env (draft_order ex_request) ex_full_state) = None \<and>
   fst (CreateOrder json_codec ex_env ''/orders'' ''POST'' ex_request ex_full_state) = Some (Inr ex_order) \<and>
   orders (snd (CreateOrder json_codec ex_env ''/orders'' ''POST'' ex_request ex_full_state)) = [ex_order] \<and>
   eventChan (snd (CreateOrder json_codec ex_env ''/orders'' ''POST'' ex_request ex_full_state)) = [ex_event] \<and>
   last (logs (snd (CreateOrder json_codec ex_env ''/orders'' ''POST'' ex_request ex_full_state))) =
     (Warn, ''Event channel full, event not emitted'')"
proof -
  have env: "\<not> ctx_done ex_env" "ctx_done ex_cancelled_env"
    by (simp_all add: ex_env_def ex_cancelled_env_def)
  have st: "eventChan ex_state = []" "orders ex_state = []" "eventChan ex_full_state = [ex_event]"
    "orders ex_full_state = []"
    by (simp_all add: ex_state_def ex_full_state_def)
  note a = emit_three_outcomes [where e = ex_env and ev = "event_of ex_env ex_order" and oid = "ID ex_order"
      and s = ex_state and c = json_codec and name = "''/orders''" and scheme = "''POST''" and req = ex_request]
  note b = emit_three_outcomes [where e = ex_cancelled_env and ev = "event_of ex_cancelled_env ex_order"
      and oid = "ID ex_order" and s = ex_full_state and c = json_codec and name = "''/orders''"
      and scheme = "''POST''" and req = ex_request]
  note c = emit_three_outcomes [where e = ex_env and ev = "event_of ex_env ex_order" and oid = "ID ex_order"
      and s = ex_full_state and c = json_codec and name = "''/orders''" and scheme = "''POST''"
      and req = ex_request]
  from a b c ex_delivered ex_cancelled_dropped ex_full_dropped ex_miss ex_repo_CreateOrder
    ex_cancelled_miss ex_cancelled_insert ex_full_miss ex_full_insert ex_send_ready env st
  show ?thesis by simp
qed








section \<open>Idempotent replay\<close>

lemma find_append_miss: "find P xs = None \<Longrightarrow> find P (xs @ ys) = find P ys"
  by (induction xs) (auto split: if_splits)



lemma check_idempotency_found:
  assumes "select_err e = None"
    and "find (\<lambda>r. same_key name scheme (req_IdempotencyKey req) r \<and> db_now e < ik_valid_to r)
           (idempotency_keys s) = Some row"
    and "Unmarshal c (ik_response row) = Inr saved"
  shows "check_idempotency c e name scheme req s =
     (Some saved, log Info ''Idempotent request detected, returning saved response'' s)"
  using assms by (simp add: check_idempotency_def GetIdempotencyResponse_def Let_def)

lemma check_idempotency_key_only:
  "req_IdempotencyKey r2 = req_IdempotencyKey r1 \<Longrightarrow>
   check_idempotency c e name scheme r2 s = check_idempotency c e name scheme r1 s"
  by (simp add: check_idempotency_def)
















lemma ex_same_key: "req_IdempotencyKey ex_request2 = req_IdempotencyKey ex_request"
  by (simp add: ex_request2_def ex_request_def)










text \<open>
  C9. When a valid record of the key triple exists and deserializes, the whole outcome
  of CreateOrder (the returned order and the resulting state) is the same for any two
  requests that share the idempotency key: it is the saved order, and the orders table,
  the event channel and the idempotency table are untouched. The customer, the product,
  the quantity, the price and the order time of the request play no part.
\<close>

theorem replay_ignores_request_fields:
  assumes key: "req_IdempotencyKey r2 = req_IdempotencyKey r1"
    and lookup: "select_err e = None"
    and found: "find (\<lambda>r. same_key name scheme (req_IdempotencyKey r1) r \<and> db_now e < ik_valid_to r)
                  (idempotency_keys s) = Some row"
    and decodes: "Unmarshal c (ik_response row) = Inr saved"
  shows "CreateOrder c e name scheme r2 s = CreateOrder c e name scheme r1 s \<and>
         fst (CreateOrder c e name scheme r1 s) = Some (Inr saved) \<and>
         orders (snd (CreateOrder c e name scheme r1 s)) = orders s \<and>
         eventChan (snd (CreateOrder c e name scheme r1 s)) = eventChan s \<and>
         idempotency_keys (snd (CreateOrder c e name scheme r1 s)) = idempotency_keys s"
proof -
  note hit1 = check_idempotency_found [OF lookup found decodes]
  have hit2: "check_idempotency c e name scheme r2 s =
      (Some saved, log Info ''Idempotent request detected, returning saved response'' s)"
    using hit1 check_idempotency_key_only [OF key, of c e name scheme s] by simp
  show ?thesis
    using CreateOrder_hit [OF hit1] CreateOrder_hit [OF hit2] by simp
qed

lemma ex_found:
  "find (\<lambda>r. same_key ''/orders'' ''POST'' (req_IdempotencyKey ex_request) r \<and> db_now ex_env2 < ik_valid_to r)
     (idempotency_keys ex_state1) = Some ex_row"
  by code_simp

lemma ex_row_unmarshal: "Unmarshal json_codec (ik_response ex_row) = Inr ex_order"
  by code_simp

theorem replay_ignores_request_fields_witness:
  "req_IdempotencyKey ex_request2 = req_IdempotencyKey ex_request \<and> select_err ex_env2 = None \<and>
   find (\<lambda>r. same_key ''/orders'' ''POST'' (req_IdempotencyKey ex_request) r \<and> db_now ex_env2 < ik_valid_to r)
     (idempotency_keys ex_state1) = Some ex_row \<and>
   Unmarshal json_codec (ik_response ex_row) = Inr ex_order \<and>
   req_CustomerID ex_request2 \<noteq> req_CustomerID ex_request \<and>
   req_Quantity ex_request2 \<noteq> req_Quantity ex_request \<and>
   CreateOrder json_codec ex_env2 ''/orders'' ''POST'' ex_request2 ex_state1 =
     CreateOrder json_codec ex_env2 ''/orders'' ''POST'' ex_request ex_state1 \<and>
   fst (CreateOrder json_codec ex_env2 ''/orders'' ''POST'' ex_request2 ex_state1) = Some (Inr ex_order)"
proof -
  have l: "select_err ex_env2 = None" by (simp add: ex_env2_def)
  from replay_ignores_request_fields [OF ex_same_key l ex_found ex_row_unmarshal]
  show ?thesis
    using ex_same_key l ex_found ex_row_unmarshal
    by (simp add: ex_request2_def ex_request_def)
qed

text \<open>
  C10. When StoreIdempotencyResponse succeeds on a table that already holds a row of the
  key triple, the table keeps its length and, row by row, the creation time and the three
  key columns; a row of the key triple takes the new response and the new
  \<^verbatim>\<open>valid_to\<close>, and every other row is unchanged. The creation time that comes with
  the statement is not written.
\<close>

theorem upsert_keeps_created_at:
  assumes "r \<in> set (idempotency_keys s)"
    and "same_key name scheme k r"
    and "StoreIdempotencyResponse c e name scheme k resp d s = (None, s')"
  shows "\<exists>b. Marshal c resp = Inr b \<and>
           length (idempotency_keys s') = length (idempotency_keys s) \<and>
           (\<forall>i < length (idempotency_keys s).
              ik_created_at (idempotency_keys s' ! i) = ik_created_at (idempotency_keys s ! i) \<and>
              ik_endpoint_name (idempotency_keys s' ! i) = ik_endpoint_name (idempotency_keys s ! i) \<and>
              ik_endpoint_scheme (idempotency_keys s' ! i) = ik_endpoint_scheme (idempotency_keys s ! i) \<and>
              ik_key (idempotency_keys s' ! i) = ik_key (idempotency_keys s ! i) \<and>
              (if same_key name scheme k (idempotency_keys s ! i)
               then ik_response (idempotency_keys s' ! i) = b \<and>
                    ik_valid_to (idempotency_keys s' ! i) = Add (now_valid e) d
               else idempotency_keys s' ! i = idempotency_keys s ! i))"
proof -
  from assms(3) obtain b where b: "Marshal c resp = Inr b" and u: "upsert_err e = None"
    by (auto simp: StoreIdempotencyResponse_def Let_def split: sum.splits option.splits)
  let ?new = "\<lparr>ik_endpoint_name = name, ik_endpoint_scheme = scheme, ik_key = k,
               ik_response = b, ik_valid_to = Add (now_valid e) d, ik_created_at = now_stored e\<rparr>"
  from assms(3) b u have s': "idempotency_keys s' = upsert ?new (idempotency_keys s)"
    by (auto simp: StoreIdempotencyResponse_def Let_def)
  have "\<exists>x \<in> set (idempotency_keys s). same_key name scheme k x"
    using assms(1,2) by auto
  then have "idempotency_keys s' =
      map (\<lambda>x. if same_key name scheme k x
                then x\<lparr>ik_response := b, ik_valid_to := Add (now_valid e) d\<rparr> else x) (idempotency_keys s)"
    using s' by (simp add: upsert_def)
  with b show ?thesis by simp
qed

lemma ex_row_mem: "ex_row \<in> set (idempotency_keys ex_state1)"
  by (simp add: ex_state1_def)

lemma ex_row_key: "same_key ''/orders'' ''POST'' ''k1'' ex_row"
  by (simp add: same_key_def ex_row_def)

lemma ex_upsert:
  "StoreIdempotencyResponse json_codec ex_env2 ''/orders'' ''POST'' ''k1'' ex_order (10 * Minute) ex_state1 =
     (None, ex_state1\<lparr>idempotency_keys := [ex_row\<lparr>ik_valid_to := 1200000001001\<rparr>]\<rparr>)"
  by code_simp

theorem upsert_keeps_created_at_witness:
  "ex_row \<in> set (idempotency_keys ex_state1) \<and> same_key ''/orders'' ''POST'' ''k1'' ex_row \<and>
   StoreIdempotencyResponse json_codec ex_env2 ''/orders'' ''POST'' ''k1'' ex_order (10 * Minute) ex_state1 =
     (None, ex_state1\<lparr>idempotency_keys := [ex_row\<lparr>ik_valid_to := 1200000001001\<rparr>]\<rparr>) \<and>
   now_stored ex_env2 \<noteq> ik_created_at ex_row \<and>
   ik_created_at ([ex_row\<lparr>ik_valid_to := 1200000001001\<rparr>] ! 0) = ik_created_at ex_row \<and>
   ik_key ([ex_row\<lparr>ik_valid_to := 1200000001001\<rparr>] ! 0) = ik_key ex_row"
  using upsert_keeps_created_at [OF ex_row_mem ex_row_key ex_upsert] ex_row_mem ex_row_key ex_upsert
  by (simp add: ex_env2_def ex_row_def)

section \<open>The loop of the worker\<close>

lemma wlog_frame [simp]:
  "w_eventChan (wlog l m w) = w_eventChan w" "w_ctx_done (wlog l m w) = w_ctx_done w"
  "w_stopChan_closed (wlog l m w) = w_stopChan_closed w" "w_processed (wlog l m w) = w_processed w"
  by (simp_all add: wlog_def)

lemma processEvent_frame [simp]:
  "w_eventChan (processEvent ev w) = w_eventChan w" "w_ctx_done (processEvent ev w) = w_ctx_done w"
  "w_stopChan_closed (processEvent ev w) = w_stopChan_closed w"
  "w_processed (processEvent ev w) = w_processed w @ [ev]"
  by (simp_all add: processEvent_def)

lemma before_frame [simp]:
  "w_eventChan (before t w) = w_eventChan w @ t_arrive t"
  "w_ctx_done (before t w) = (w_ctx_done w \<or> t_cancel t)"
  "w_stopChan_closed (before t w) = (w_stopChan_closed w \<or> t_stop t)"
  "w_processed (before t w) = w_processed w"
  by (auto simp: before_def Stop_def Let_def)

lemma go_select_three_Case:
  assumes "go_select [a, b, c] d p = Case i"
  shows "(i = 0 \<and> a) \<or> (i = 1 \<and> b) \<or> (i = 2 \<and> c)"
proof -
  from go_select_Case [OF assms] have i: "i < 3" and r: "[a, b, c] ! i" by simp_all
  from i consider "i = 0" | "i = 1" | "i = 2" by arith
  then show ?thesis
  proof cases
    case 1
    with r show ?thesis by simp
  next
    case 2
    with r show ?thesis by simp
  next
    case 3
    with r show ?thesis by simp
  qed
qed

lemma go_select_three_Parked:
  assumes "go_select [a, b, c] False p = Parked"
  shows "\<not> a \<and> \<not> b \<and> \<not> c"
proof -
  from assms have all: "\<forall>i < length [a, b, c]. \<not> [a, b, c] ! i"
    using go_select_none [of "[a, b, c]" False p] by simp
  from all have "0 < length [a, b, c] \<longrightarrow> \<not> [a, b, c] ! 0" by blast
  moreover from all have "Suc 0 < length [a, b, c] \<longrightarrow> \<not> [a, b, c] ! Suc 0" by blast
  moreover from all have "Suc (Suc 0) < length [a, b, c] \<longrightarrow> \<not> [a, b, c] ! Suc (Suc 0)" by blast
  ultimately show ?thesis by simp
qed

lemma worker_iteration_Continue:
  assumes "worker_iteration pick w = Continue w'"
  shows "\<exists>ev. w_eventChan w = ev # w_eventChan w' \<and> w_processed w' = w_processed w @ [ev] \<and>
    w_ctx_done w' = w_ctx_done w \<and> w_stopChan_closed w' = w_stopChan_closed w"
  using assms
  by (auto simp: worker_iteration_def split: selected.splits if_splits list.splits)

lemma worker_iteration_Return:
  assumes "worker_iteration pick w = Return w'"
  shows "(w_ctx_done w \<or> w_stopChan_closed w) \<and> w_eventChan w' = w_eventChan w \<and>
    w_processed w' = w_processed w"
proof -
  from assms obtain i where
    sel: "go_select [w_eventChan w \<noteq> [], w_ctx_done w, w_stopChan_closed w] False pick = Case i"
    and i: "i \<noteq> 0"
    and w': "w' = (if i = 1 then wlog Info ''Event worker stopping due to context cancellation'' w
                   else wlog Info ''Event worker stopping'' w)"
    by (auto simp: worker_iteration_def split: selected.splits if_splits list.splits)
  from go_select_three_Case [OF sel] i have "w_ctx_done w \<or> w_stopChan_closed w" by auto
  with w' show ?thesis by simp
qed

lemma worker_iteration_Waiting:
  assumes "worker_iteration pick w = Waiting w'"
  shows "w' = w \<and> w_eventChan w = [] \<and> \<not> w_ctx_done w \<and> \<not> w_stopChan_closed w"
proof -
  let ?sel = "go_select [w_eventChan w \<noteq> [], w_ctx_done w, w_stopChan_closed w] False pick"
  have nd: "?sel \<noteq> Default" by (rule go_select_no_default)
  have w': "w' = w"
    using assms by (auto simp: worker_iteration_def split: selected.splits if_splits list.splits)
  have "?sel = Parked"
  proof (cases ?sel)
    case (Case i)
    from go_select_three_Case [OF Case] assms Case show ?thesis
      by (auto simp: worker_iteration_def split: list.splits)
  next
    case Default
    with nd show ?thesis by simp
  next
    case Parked
    then show ?thesis .
  qed
  from go_select_three_Parked [OF this] w' show ?thesis by simp
qed

lemma Start_loop_running:
  "\<not> w_ctx_done w \<Longrightarrow> \<not> w_stopChan_closed w \<Longrightarrow> \<forall>t \<in> set ts. \<not> t_cancel t \<and> \<not> t_stop t \<Longrightarrow>
   \<exists>w'. Start_loop ts w = Running w'"
proof (induction ts arbitrary: w)
  case Nil
  then show ?case by simp
next
  case (Cons t ts)
  let ?w = "before t w"
  have quiet: "\<not> w_ctx_done ?w" "\<not> w_stopChan_closed ?w"
    using Cons.prems by simp_all
  show ?case
  proof (cases "worker_iteration (t_pick t) ?w")
    case (Continue w1)
    from worker_iteration_Continue [OF Continue] quiet
    have "\<not> w_ctx_done w1" "\<not> w_stopChan_closed w1" by auto
    from Cons.IH [OF this] Cons.prems(3) Continue show ?thesis by simp
  next
    case (Return w1)
    from worker_iteration_Return [OF Return] quiet show ?thesis by simp
  next
    case (Waiting w1)
    from worker_iteration_Waiting [OF Waiting] have "w1 = ?w" by simp
    with Cons.IH [of ?w] quiet Cons.prems(3) Waiting show ?thesis by simp
  qed
qed

lemma Start_loop_returns:
  "w_ctx_done w \<or> w_stopChan_closed w \<Longrightarrow>
   length (w_eventChan w) + sum_list (map (\<lambda>t. length (t_arrive t)) ts) < length ts \<Longrightarrow>
   \<exists>w'. Start_loop ts w = Returned w'"
proof (induction ts arbitrary: w)
  case Nil
  then show ?case by simp
next
  case (Cons t ts)
  let ?w = "before t w"
  have fired: "w_ctx_done ?w \<or> w_stopChan_closed ?w"
    using Cons.prems(1) by auto
  show ?case
  proof (cases "worker_iteration (t_pick t) ?w")
    case (Continue w1)
    from worker_iteration_Continue [OF Continue] obtain ev where
      ev: "w_eventChan ?w = ev # w_eventChan w1" and
      sig: "w_ctx_done w1 = w_ctx_done ?w" "w_stopChan_closed w1 = w_stopChan_closed ?w"
      by auto
    from ev have "length (w_eventChan w) + length (t_arrive t) = Suc (length (w_eventChan w1))"
    proof -
      have "length (w_eventChan ?w) = Suc (length (w_eventChan w1))" using ev by simp
      then show ?thesis by simp
    qed
    with Cons.prems(2) have "length (w_eventChan w1) + sum_list (map (\<lambda>t. length (t_arrive t)) ts) < length ts"
      by simp
    moreover from fired sig have "w_ctx_done w1 \<or> w_stopChan_closed w1" by simp
    ultimately have "\<exists>w'. Start_loop ts w1 = Returned w'" by (intro Cons.IH)
    with Continue show ?thesis by simp
  next
    case (Return w1)
    then show ?thesis by simp
  next
    case (Waiting w1)
    from worker_iteration_Waiting [OF Waiting] fired show ?thesis by simp
  qed
qed

lemma Start_loop_append:
  "Start_loop (pre @ post) w =
     (case Start_loop pre w of Returned w' \<Rightarrow> Returned w' | Running w' \<Rightarrow> Start_loop post w')"
  by (induction pre arbitrary: w) (auto split: iteration.splits)

lemma Start_loop_returns_tick:
  assumes "w_ctx_done w \<or> w_stopChan_closed w \<or> t_cancel t \<or> t_stop t"
    and "length (w_eventChan w) + sum_list (map (\<lambda>t. length (t_arrive t)) (t # ts)) < length (t # ts)"
  shows "\<exists>w'. Start_loop (t # ts) w = Returned w'"
proof -
  let ?w = "before t w"
  have fired: "w_ctx_done ?w \<or> w_stopChan_closed ?w"
    using assms(1) by auto
  show ?thesis
  proof (cases "worker_iteration (t_pick t) ?w")
    case (Continue w1)
    from worker_iteration_Continue [OF Continue] obtain ev where
      ev: "w_eventChan ?w = ev # w_eventChan w1" and
      sig: "w_ctx_done w1 = w_ctx_done ?w" "w_stopChan_closed w1 = w_stopChan_closed ?w"
      by auto
    have "length (w_eventChan ?w) = Suc (length (w_eventChan w1))" using ev by simp
    then have "length (w_eventChan w) + length (t_arrive t) = Suc (length (w_eventChan w1))" by simp
    with assms(2) have "length (w_eventChan w1) + sum_list (map (\<lambda>t. length (t_arrive t)) ts) < length ts"
      by simp
    moreover from fired sig have "w_ctx_done w1 \<or> w_stopChan_closed w1" by simp
    ultimately have "\<exists>w'. Start_loop ts w1 = Returned w'" by (intro Start_loop_returns)
    with Continue show ?thesis by simp
  next
    case (Return w1)
    then show ?thesis by simp
  next
    case (Waiting w1)
    from worker_iteration_Waiting [OF Waiting] fired show ?thesis by simp
  qed
qed

lemma go_select_first: "go_select (True # ready) d 0 = Case 0"
proof -
  have "[0..<length (True # ready)] = 0 # [Suc 0..<Suc (length ready)]"
    by (simp add: upt_rec)
  then have "filter (\<lambda>i. (True # ready) ! i) [0..<length (True # ready)] =
      0 # filter (\<lambda>i. (True # ready) ! i) [Suc 0..<Suc (length ready)]"
    by simp
  then show ?thesis
    unfolding go_select_def Let_def by simp
qed

text \<open>
  A worker that finds an event in the channel at every pass, the runtime picking the event
  each time, never returns, cancelled or not.
\<close>

lemma Start_loop_busy:
  "\<forall>t \<in> set ts. t_arrive t \<noteq> [] \<and> t_pick t = 0 \<Longrightarrow> \<exists>w'. Start_loop ts w = Running w'"
proof (induction ts arbitrary: w)
  case Nil
  then show ?case by simp
next
  case (Cons t ts)
  then have a: "t_arrive t \<noteq> []" and p: "t_pick t = 0" by simp_all
  from a obtain ev rest where ch: "w_eventChan (before t w) = ev # rest"
    by (cases "w_eventChan (before t w)") auto
  then have "worker_iteration (t_pick t) (before t w) =
      Continue (processEvent ev ((before t w)\<lparr>w_eventChan := rest\<rparr>))"
    using p by (simp add: worker_iteration_def go_select_first)
  with Cons show ?case by simp
qed

text \<open>
  C8, as it is stated, fails: the loop does not terminate whenever a signal has fired. The
  select picks among its ready cases and does not prefer the two shutdown cases, so a pass
  with the context cancelled and an event in the channel may process the event. Here the
  context is cancelled before \<^verbatim>\<open>Start\<close>, one event arrives before each pass and the
  runtime picks the event each time: after three passes the loop is still running, and by
  \<open>Start_loop_busy\<close> it is so after any number of such passes.
\<close>

theorem worker_loop_shutdown_counterexample:
  "w_ctx_done ex_worker_cancelled \<and>
   worker_iteration 0 ex_worker_cancelled =
     Continue (processEvent ex_event (ex_worker_cancelled\<lparr>w_eventChan := []\<rparr>)) \<and>
   Start [ex_busy_tick, ex_busy_tick, ex_busy_tick] ex_worker_cancelled = Running ex_worker_busy"
  by code_simp

text \<open>
  C8, amended. A pass of the loop that completes either takes exactly one event from the
  head of the channel and processes it, or returns; it returns only when the context is
  cancelled or the stop channel is closed, and it waits only when the channel is empty and
  neither signal has fired. With a signal fired and the channel empty the pass returns.
  Over a schedule, \<^verbatim>\<open>Start\<close> never returns while no signal fires, and once it has returned
  it stays returned. Wherever the run stands, once a signal has fired (the context was
  cancelled or \<^verbatim>\<open>Stop\<close> closed the stop channel, before \<^verbatim>\<open>Start\<close>, earlier in the run or
  right before the next pass) every later pass returns or processes one event, whatever
  the picks of the runtime are: \<^verbatim>\<open>Start\<close> returns within as many passes as there are
  events pending and still arriving, plus one.
\<close>

theorem worker_loop_shutdown:
  "(worker_iteration pick w = Continue w' \<longrightarrow>
      (\<exists>ev. w_eventChan w = ev # w_eventChan w' \<and> w_processed w' = w_processed w @ [ev])) \<and>
   (worker_iteration pick w = Return w' \<longrightarrow>
      (w_ctx_done w \<or> w_stopChan_closed w) \<and> w_eventChan w' = w_eventChan w \<and>
      w_processed w' = w_processed w) \<and>
   (worker_iteration pick w = Waiting w' \<longrightarrow>
      w' = w \<and> w_eventChan w = [] \<and> \<not> w_ctx_done w \<and> \<not> w_stopChan_closed w) \<and>
   ((w_ctx_done w \<or> w_stopChan_closed w) \<and> w_eventChan w = [] \<longrightarrow>
      (\<exists>w2. worker_iteration pick w = Return w2)) \<and>
   (\<not> w_ctx_done w \<and> \<not> w_stopChan_closed w \<and> (\<forall>t \<in> set ts. \<not> t_cancel t \<and> \<not> t_stop t) \<longrightarrow>
      (\<exists>w2. Start ts w = Running w2)) \<and>
   (Start pre w = Returned wr \<longrightarrow> Start (pre @ post) w = Returned wr) \<and>
   (Start pre w = Running wm \<and>
    (w_ctx_done wm \<or> w_stopChan_closed wm \<or> t_cancel t \<or> t_stop t) \<and>
    length (w_eventChan wm) + sum_list (map (\<lambda>t. length (t_arrive t)) (t # post)) < length (t # post) \<longrightarrow>
      (\<exists>w2. Start (pre @ t # post) w = Returned w2)) \<and>
   (Stop w = Some ws \<and>
    length (w_eventChan w) + sum_list (map (\<lambda>t. length (t_arrive t)) ts) < length ts \<longrightarrow>
      (\<exists>w2. Start ts ws = Returned w2))"
proof (intro conjI impI)
  assume "worker_iteration pick w = Continue w'"
  from worker_iteration_Continue [OF this]
  show "\<exists>ev. w_eventChan w = ev # w_eventChan w' \<and> w_processed w' = w_processed w @ [ev]" by auto
next
  assume r: "worker_iteration pick w = Return w'"
  from worker_iteration_Return [OF r] show "w_ctx_done w \<or> w_stopChan_closed w" by simp
  from worker_iteration_Return [OF r] show "w_eventChan w' = w_eventChan w" by simp
  from worker_iteration_Return [OF r] show "w_processed w' = w_processed w" by simp
next
  assume p: "worker_iteration pick w = Waiting w'"
  from worker_iteration_Waiting [OF p] show "w' = w" by simp
  from worker_iteration_Waiting [OF p] show "w_eventChan w = []" by simp
  from worker_iteration_Waiting [OF p] show "\<not> w_ctx_done w" by simp
  from worker_iteration_Waiting [OF p] show "\<not> w_stopChan_closed w" by simp
next
  assume h: "(w_ctx_done w \<or> w_stopChan_closed w) \<and> w_eventChan w = []"
  show "\<exists>w2. worker_iteration pick w = Return w2"
  proof (cases "worker_iteration pick w")
    case (Continue w1)
    from worker_iteration_Continue [OF Continue] h show ?thesis by auto
  next
    case (Return w1)
    then show ?thesis by simp
  next
    case (Waiting w1)
    from worker_iteration_Waiting [OF Waiting] h show ?thesis by auto
  qed
next
  assume "\<not> w_ctx_done w \<and> \<not> w_stopChan_closed w \<and> (\<forall>t \<in> set ts. \<not> t_cancel t \<and> \<not> t_stop t)"
  then show "\<exists>w2. Start ts w = Running w2"
    using Start_loop_running [of "wlog Info ''Event worker started'' w" ts] by (simp add: Start_def)
next
  assume "Start pre w = Returned wr"
  then show "Start (pre @ post) w = Returned wr"
    by (simp add: Start_def Start_loop_append)
next
  assume h: "Start pre w = Running wm \<and>
    (w_ctx_done wm \<or> w_stopChan_closed wm \<or> t_cancel t \<or> t_stop t) \<and>
    length (w_eventChan wm) + sum_list (map (\<lambda>t. length (t_arrive t)) (t # post)) < length (t # post)"
  then have "\<exists>w2. Start_loop (t # post) wm = Returned w2"
    by (intro Start_loop_returns_tick) simp_all
  with h show "\<exists>w2. Start (pre @ t # post) w = Returned w2"
    by (simp add: Start_def Start_loop_append)
next
  assume h: "Stop w = Some ws \<and>
    length (w_eventChan w) + sum_list (map (\<lambda>t. length (t_arrive t)) ts) < length ts"
  then have "w_stopChan_closed ws" "w_eventChan ws = w_eventChan w"
    by (auto simp: Stop_def split: if_splits)
  with h show "\<exists>w2. Start ts ws = Returned w2"
    using Start_loop_returns [of "wlog Info ''Event worker started'' ws" ts] by (simp add: Start_def)
qed

lemma ex_worker_continue:
  "worker_iteration 0 ex_worker = Continue (processEvent ex_event ex_worker_idle)"
  by code_simp

lemma ex_worker_return:
  "worker_iteration 1 ex_worker_cancelled =
     Return (wlog Info ''Event worker stopping due to context cancellation'' ex_worker_cancelled)"
  by code_simp

lemma ex_worker_waiting: "worker_iteration 0 ex_worker_idle = Waiting ex_worker_idle"
  by code_simp

lemma ex_worker_stop: "Stop ex_worker = Some (ex_worker\<lparr>w_stopChan_closed := True\<rparr>)"
  by code_simp

lemma ex_worker_run_mid: "Start [ex_tick] ex_worker = Running ex_worker_mid"
  by code_simp

lemma ex_worker_run_done: "Start [ex_tick, ex_cancel_tick] ex_worker = Returned ex_worker_done"
  by code_simp

theorem worker_loop_shutdown_witness:
  "worker_iteration 0 ex_worker = Continue (processEvent ex_event ex_worker_idle) \<and>
   w_eventChan ex_worker = [ex_event] \<and>
   w_processed (processEvent ex_event ex_worker_idle) = [ex_event] \<and>
   worker_iteration 1 ex_worker_cancelled =
     Return (wlog Info ''Event worker stopping due to context cancellation'' ex_worker_cancelled) \<and>
   w_ctx_done ex_worker_cancelled \<and>
   worker_iteration 0 ex_worker_idle = Waiting ex_worker_idle \<and>
   \<not> w_ctx_done ex_worker_idle \<and> \<not> w_stopChan_closed ex_worker_idle \<and>
   \<not> t_cancel ex_tick \<and> \<not> t_stop ex_tick \<and>
   (\<exists>w2. Start [ex_tick, ex_tick] ex_worker = Running w2) \<and>
   Start [ex_tick, ex_cancel_tick] ex_worker = Returned ex_worker_done \<and>
   Start ([ex_tick, ex_cancel_tick] @ [ex_tick]) ex_worker = Returned ex_worker_done \<and>
   Start [ex_tick] ex_worker = Running ex_worker_mid \<and>
   \<not> w_ctx_done ex_worker_mid \<and> \<not> w_stopChan_closed ex_worker_mid \<and>
   t_cancel ex_cancel_tick \<and> t_stop ex_stop_tick \<and>
   length (w_eventChan ex_worker_mid) +
     sum_list (map (\<lambda>t. length (t_arrive t)) [ex_cancel_tick, ex_tick]) < length [ex_cancel_tick, ex_tick] \<and>
   (\<exists>w2. Start ([ex_tick] @ [ex_cancel_tick, ex_tick]) ex_worker = Returned w2) \<and>
   (\<exists>w2. Start ([ex_tick] @ [ex_stop_tick, ex_tick]) ex_worker = Returned w2) \<and>
   Stop ex_worker = Some (ex_worker\<lparr>w_stopChan_closed := True\<rparr>) \<and>
   (\<exists>w2. Start [ex_tick, ex_tick] (ex_worker\<lparr>w_stopChan_closed := True\<rparr>) = Returned w2)"
proof -
  have ticks: "\<not> t_cancel ex_tick" "\<not> t_stop ex_tick" "t_cancel ex_cancel_tick" "t_stop ex_stop_tick"
    "t_arrive ex_tick = []" "t_arrive ex_cancel_tick = []" "t_arrive ex_stop_tick = []"
    by (simp_all add: ex_tick_def ex_cancel_tick_def ex_stop_tick_def)
  have ws: "w_eventChan ex_worker = [ex_event]" "\<not> w_ctx_done ex_worker" "\<not> w_stopChan_closed ex_worker"
    "w_eventChan ex_worker_mid = []" "\<not> w_ctx_done ex_worker_mid" "\<not> w_stopChan_closed ex_worker_mid"
    "w_ctx_done ex_worker_cancelled" "\<not> w_ctx_done ex_worker_idle" "\<not> w_stopChan_closed ex_worker_idle"
    by (simp_all add: ex_worker_def ex_worker_mid_def ex_worker_cancelled_def ex_worker_idle_def)
  have p: "w_processed (processEvent ex_event ex_worker_idle) = [ex_event]"
    by (simp add: ex_worker_idle_def ex_worker_def)
  note a = worker_loop_shutdown [where pick = 0 and w = ex_worker
      and w' = "processEvent ex_event ex_worker_idle" and ts = "[ex_tick, ex_tick]"
      and ws = "ex_worker\<lparr>w_stopChan_closed := True\<rparr>" and pre = "[ex_tick]" and wm = ex_worker_mid
      and wr = ex_worker_done and t = ex_cancel_tick and post = "[ex_tick]"]
  note b = worker_loop_shutdown [where pick = 0 and w = ex_worker
      and w' = "processEvent ex_event ex_worker_idle" and ts = "[ex_tick, ex_tick]"
      and ws = "ex_worker\<lparr>w_stopChan_closed := True\<rparr>" and pre = "[ex_tick]" and wm = ex_worker_mid
      and wr = ex_worker_done and t = ex_stop_tick and post = "[ex_tick]"]
  note c = worker_loop_shutdown [where pick = 0 and w = ex_worker
      and w' = "processEvent ex_event ex_worker_idle" and ts = "[ex_tick, ex_tick]"
      and ws = "ex_worker\<lparr>w_stopChan_closed := True\<rparr>" and pre = "[ex_tick, ex_cancel_tick]"
      and wm = ex_worker_mid and wr = ex_worker_done and t = ex_cancel_tick and post = "[ex_tick]"]
  have running: "\<exists>w2. Start [ex_tick, ex_tick] ex_worker = Running w2"
    using a ws(2,3) ticks(1,2) by simp
  have stopped: "\<exists>w2. Start [ex_tick, ex_tick] (ex_worker\<lparr>w_stopChan_closed := True\<rparr>) = Returned w2"
    using a ex_worker_stop ws(1) ticks(5) by simp
  have cancel: "\<exists>w2. Start ([ex_tick] @ [ex_cancel_tick, ex_tick]) ex_worker = Returned w2"
    using a ex_worker_run_mid ws(4) ticks(3,5,6) by simp
  have stop: "\<exists>w2. Start ([ex_tick] @ [ex_stop_tick, ex_tick]) ex_worker = Returned w2"
    using b ex_worker_run_mid ws(4) ticks(4,5,7) by simp
  have ext: "Start ([ex_tick, ex_cancel_tick] @ [ex_tick]) ex_worker = Returned ex_worker_done"
    using c ex_worker_run_done by simp
  have bound: "length (w_eventChan ex_worker_mid) +
     sum_list (map (\<lambda>t. length (t_arrive t)) [ex_cancel_tick, ex_tick]) < length [ex_cancel_tick, ex_tick]"
    using ws(4) ticks(5,6) by simp
  show ?thesis
    by (intro conjI ex_worker_continue ws(1) p ex_worker_return ws(7) ex_worker_waiting ws(8) ws(9)
        ticks(1) ticks(2) running ex_worker_run_done ext ex_worker_run_mid ws(5) ws(6) ticks(3) ticks(4)
        bound cancel stop ex_worker_stop stopped)
qed

end
